theory Spec2Isabelle
  imports Complex_Main "HOL-Library.AList" "HOL-Library.Sublist"
begin

section \<open>Prompts.ts: data model\<close>

text \<open>
  The module under study is \<^verbatim>\<open>Node/src/dialogs/Prompts.ts\<close>: the recogniser of one typed
  reply (\<^verbatim>\<open>SimplePromptRecognizer\<close>) and the dialog that owns the retry budget
  (\<^verbatim>\<open>Prompts\<close>).  JavaScript strings are modelled as \<^typ>\<open>string\<close> (one \<^typ>\<open>char\<close> per code
  unit, so the text is Latin-1).  A JavaScript number is a real value, an infinity or
  not-a-number; arithmetic on finite values is exact, and \<^verbatim>\<open>Number.prototype.toString\<close>, which
  depends on the floating-point representation, is taken from the environment.
\<close>

datatype PromptType =
  PromptType_text | PromptType_number | PromptType_confirm | PromptType_choice | PromptType_time

datatype ListStyle =
  ListStyle_none | ListStyle_inline | ListStyle_list | ListStyle_button | ListStyle_auto

text \<open>
  Modelled from the spec: the enumeration \<^verbatim>\<open>dialog.ResumeReason\<close> is declared in
  \<^verbatim>\<open>Dialog.ts\<close>; the three reasons the module uses are the ones of the spec's
  RecognitionOutcome.
\<close>

datatype ResumeReason =
  ResumeReason_completed | ResumeReason_notCompleted | ResumeReason_canceled

text \<open>JavaScript numbers: parsed values, indices and scores.\<close>

datatype number = Finite real | Infinity | MinusInfinity | NaN

type_synonym score = number

text \<open>The division of two lengths.\<close>

definition js_div :: "nat \<Rightarrow> nat \<Rightarrow> score" where
  "js_div a b =
     (if b = 0 then (if a = 0 then NaN else Infinity) else Finite (real a / real b))"

text \<open>\<^verbatim>\<open>x > 0\<close>\<close>

fun score_positive :: "score \<Rightarrow> bool" where
  "score_positive (Finite r) = (0 < r)"
| "score_positive Infinity = True"
| "score_positive MinusInfinity = False"
| "score_positive NaN = False"

fun isNaN :: "number \<Rightarrow> bool" where
  "isNaN NaN = True"
| "isNaN _ = False"

text \<open>\<^verbatim>\<open>x <= xs.length\<close>\<close>

fun at_most_length :: "number \<Rightarrow> 'a list \<Rightarrow> bool" where
  "at_most_length (Finite r) xs = (r \<le> real (length xs))"
| "at_most_length Infinity xs = False"
| "at_most_length MinusInfinity xs = True"
| "at_most_length NaN xs = False"

text \<open>
  \<^verbatim>\<open>xs[x - 1]\<close>: the element when \<open>x - 1\<close> is an index of the array, \<^verbatim>\<open>undefined\<close> (here
  \<open>None\<close>) for every other number.
\<close>

fun element_before :: "'a list \<Rightarrow> number \<Rightarrow> 'a option" where
  "element_before xs (Finite r) =
     (if r - 1 = of_int \<lfloor>r - 1\<rfloor> \<and> 0 \<le> r - 1 \<and> r - 1 < real (length xs)
      then Some (xs ! nat \<lfloor>r - 1\<rfloor>) else None)"
| "element_before xs _ = None"

text \<open>
  A thrown value is an \<^verbatim>\<open>Error\<close> instance or some other value, of which the handler
  only reads \<^verbatim>\<open>toString()\<close>.
\<close>

datatype Error = Error string

datatype thrown = ThrowError Error | ThrowOther string

record IAction =
  title :: string
  message :: string

record IAttachment =
  actions :: "IAction list"

text \<open>
  \<^verbatim>\<open>Message.setText(session, text, ...args)\<close> belongs to \<^verbatim>\<open>Message.ts\<close>; the model
  records the format string and the arguments it is called with.
\<close>

record IMessage =
  msg_text :: string
  msg_args :: "string list"
  attachments :: "IAttachment list"

definition new_Message :: IMessage where
  "new_Message = \<lparr>msg_text = [], msg_args = [], attachments = []\<rparr>"

definition setText :: "IMessage \<Rightarrow> string \<Rightarrow> string list \<Rightarrow> IMessage" where
  "setText msg fmt as = msg\<lparr>msg_text := fmt, msg_args := as\<rparr>"

definition addAttachment :: "IMessage \<Rightarrow> IAttachment \<Rightarrow> IMessage" where
  "addAttachment msg a = msg\<lparr>attachments := attachments msg @ [a]\<rparr>"

text \<open>\<^verbatim>\<open>string | string[] | IMessage\<close>\<close>

datatype prompt = PString string | PArray "string list" | PMessage IMessage

text \<open>A value stored under a key that the interfaces do not declare.\<close>

datatype jsval = JNull | JBool bool | JNum int | JStr string

text \<open>
  \<^verbatim>\<open>IPromptArgs extends IPromptOptions\<close>.  The object is a property bag: each declared key
  may be absent, and \<open>others\<close> holds the own properties under any other key, in the
  order of their creation.  A missing \<^verbatim>\<open>maxRetries\<close> stands for \<^verbatim>\<open>undefined\<close> and for
  \<^verbatim>\<open>NaN\<close> alike (both differ from 0 and both decrement to \<^verbatim>\<open>NaN\<close>).  \<^verbatim>\<open>enumValues\<close> is
  a list throughout: the model covers the bags that carry it wherever the source reads its
  length.
\<close>

record IPromptOptions =
  retryPrompt :: "prompt option"
  maxRetries :: "real option"
  refDate :: "int option"
  listStyle :: "ListStyle option"

record IPromptArgs = IPromptOptions +
  promptType :: "PromptType option"
  prompt :: "prompt option"
  enumValues :: "string list"
  others :: "(string \<times> jsval) list"

record IEntity =
  entity :: string
  resolution_start :: int

record IFindMatchResult =
  index :: number
  match_entity :: "string option"
  match_score :: score

datatype response =
  TextResponse string
  | NumberResponse number
  | BoolResponse bool
  | TimeResponse IEntity
  | ChoiceResponse IFindMatchResult

record IPromptRecognizerResult =
  resumed :: ResumeReason
  result_promptType :: "PromptType option"
  response :: "response option"
  error :: "Error option"
  handled :: "bool option"

record IPromptRecognizerArgs =
  args_promptType :: "PromptType option"
  language :: string
  utterance :: string
  args_enumValues :: "string list"
  args_refDate :: "int option"

text \<open>
  The collaborators the module calls: the entity recogniser, the session's arbitration
  (\<^verbatim>\<open>session.compareConfidence\<close>, whose callback is taken to run once, synchronously, with
  the answer), the channel's button capacity, the random choice among phrasing variants and
  the configured default retry prompt.  Each call that may raise returns a sum.
  \<^verbatim>\<open>parseNumber\<close> answers a number, \<^verbatim>\<open>NaN\<close> when it finds none; \<^verbatim>\<open>toString\<close> is the
  rendering of a number by the language.  \<open>send\<close> tells what the statement
  \<^verbatim>\<open>session.send(this.formatPrompt(...))\<close> raises for the message that \<^verbatim>\<open>formatPrompt\<close>
  builds, if anything: \<^verbatim>\<open>Message.setText\<close> formats its text and may reject the format, and
  the session may fail to send.
\<close>

record Env =
  parseNumber :: "string \<Rightarrow> thrown + number"
  toString :: "number \<Rightarrow> string"
  parseBoolean :: "string \<Rightarrow> thrown + bool option"
  recognizeTime :: "string \<Rightarrow> int option \<Rightarrow> thrown + IEntity option"
  findBestMatch :: "string list \<Rightarrow> string \<Rightarrow> thrown + IFindMatchResult option"
  compareConfidence :: "string \<Rightarrow> string \<Rightarrow> score \<Rightarrow> thrown + bool"
  maxButtons :: int
  randomPrompt :: "string list \<Rightarrow> string"
  defaultRetryPrompt :: string
  send :: "IMessage option \<Rightarrow> thrown option"

text \<open>The calls made to the parsers and to the arbitration during one recognition, in order.\<close>

datatype event =
  ParseNumber string
  | ParseBoolean string
  | RecognizeTime string "int option"
  | FindBestMatch "string list" string
  | CompareConfidence string string score

text \<open>
  The session of one prompt dialog: its persisted state, the inbound message, the messages
  sent, the result the dialog was ended with (\<^verbatim>\<open>session.endDialog\<close>, taken to return
  normally), and the exception that left \<^verbatim>\<open>begin\<close> or \<^verbatim>\<open>replyReceived\<close>, if one did.
\<close>

record Session =
  dialogData :: IPromptArgs
  message_text :: string
  message_language :: string
  sent :: "IMessage option list"
  ended :: "IPromptRecognizerResult option"
  raised :: "thrown option"


section \<open>Strings\<close>

text \<open>\<^verbatim>\<open>String.prototype.trim\<close>: white space and line terminators below code 256.\<close>

definition isWhiteSpace :: "char \<Rightarrow> bool" where
  "isWhiteSpace c = ((of_char c :: nat) \<in> {9, 10, 11, 12, 13, 32, 160})"

definition trim :: "string \<Rightarrow> string" where
  "trim s = rev (dropWhile isWhiteSpace (rev (dropWhile isWhiteSpace s)))"

text \<open>
  The canonicalisation of an ignore-case regular expression without the unicode flag: a
  character is compared through its upper case, and a character above 127 is never
  identified with one below 128.
\<close>

definition Canonicalize :: "char \<Rightarrow> char" where
  "Canonicalize c =
     (let n = (of_char c :: nat) in if 97 \<le> n \<and> n \<le> 122 then char_of (n - 32) else c)"

text \<open>A literal alternative matched at the start of the input (the anchor \<^verbatim>\<open>^\<close>).\<close>

fun match_literal :: "string \<Rightarrow> string \<Rightarrow> bool" where
  "match_literal [] s = True"
| "match_literal (p # ps) [] = False"
| "match_literal (p # ps) (c # cs) = (Canonicalize p = Canonicalize c \<and> match_literal ps cs)"

text \<open>\<^verbatim>\<open>/^(cancel|nevermind|never mind|back|stop|forget it)/i\<close>\<close>

definition cancelExp :: "string list" where
  "cancelExp = [''cancel'', ''nevermind'', ''never mind'', ''back'', ''stop'', ''forget it'']"

definition cancelExp_test :: "string \<Rightarrow> bool" where
  "cancelExp_test s = list_ex (\<lambda>p. match_literal p s) cancelExp"

text \<open>
  The decimal digits of a natural number: the rendering of the item numbers that
  \<^verbatim>\<open>formatPrompt\<close> concatenates, which are array indices plus one.
\<close>

fun digits :: "nat \<Rightarrow> string" where
  "digits n = (if n < 10 then [char_of (48 + n)] else digits (n div 10) @ [char_of (48 + n mod 10)])"

declare digits.simps [simp del]


section \<open>SimplePromptRecognizer\<close>

definition error_result :: "IPromptRecognizerArgs \<Rightarrow> thrown \<Rightarrow> IPromptRecognizerResult" where
  "error_result args err =
     \<lparr>resumed = ResumeReason_notCompleted, result_promptType = args_promptType args,
      response = None,
      error = Some (case err of ThrowError e \<Rightarrow> e | ThrowOther s \<Rightarrow> Error s),
      handled = None\<rparr>"

text \<open>
  The \<^verbatim>\<open>switch\<close> of \<^verbatim>\<open>recognize\<close>: the score and the response of the trimmed text, or the
  value a collaborator threw, with the calls made.
\<close>

definition recognize_value ::
  "Env \<Rightarrow> IPromptRecognizerArgs \<Rightarrow> string \<Rightarrow> event list \<times> (thrown + score \<times> response option)"
where
  "recognize_value env args txt =
     (case args_promptType args of
        Some PromptType_text \<Rightarrow> ([], Inr (Finite (1 / 10), Some (TextResponse txt)))
      | Some PromptType_number \<Rightarrow>
          ([ParseNumber txt],
           case parseNumber env txt of
             Inl err \<Rightarrow> Inl err
           | Inr n \<Rightarrow>
               if \<not> isNaN n
               then Inr (js_div (length (toString env n)) (length txt), Some (NumberResponse n))
               else Inr (Finite 0, None))
      | Some PromptType_confirm \<Rightarrow>
          ([ParseBoolean txt],
           case parseBoolean env txt of
             Inl err \<Rightarrow> Inl err
           | Inr None \<Rightarrow> Inr (Finite 0, None)
           | Inr (Some b) \<Rightarrow> Inr (Finite 1, Some (BoolResponse b)))
      | Some PromptType_time \<Rightarrow>
          (let ref = (case args_refDate args of
                        None \<Rightarrow> None
                      | Some d \<Rightarrow> if d = 0 then None else Some d)
           in ([RecognizeTime txt ref],
               case recognizeTime env txt ref of
                 Inl err \<Rightarrow> Inl err
               | Inr None \<Rightarrow> Inr (Finite 0, None)
               | Inr (Some e) \<Rightarrow>
                   Inr (js_div (length (entity e)) (length txt), Some (TimeResponse e))))
      | Some PromptType_choice \<Rightarrow>
          (case findBestMatch env (args_enumValues args) txt of
             Inl err \<Rightarrow> ([FindBestMatch (args_enumValues args) txt], Inl err)
           | Inr (Some best) \<Rightarrow>
               ([FindBestMatch (args_enumValues args) txt],
                Inr (match_score best, Some (ChoiceResponse best)))
           | Inr None \<Rightarrow>
               ([FindBestMatch (args_enumValues args) txt, ParseNumber txt],
                case parseNumber env txt of
                  Inl err \<Rightarrow> Inl err
                | Inr n \<Rightarrow>
                    if \<not> isNaN n \<and> score_positive n \<and> at_most_length n (args_enumValues args)
                    then Inr (Finite 1,
                           Some (ChoiceResponse
                             \<lparr>index = n,
                              match_entity = element_before (args_enumValues args) n,
                              match_score = Finite 1\<rparr>))
                    else Inr (Finite 0, None)))
      | None \<Rightarrow> ([], Inr (Finite 0, None)))"

definition checkCanceled ::
  "IPromptRecognizerArgs \<Rightarrow> (unit \<Rightarrow> 'a) \<Rightarrow> (IPromptRecognizerResult \<Rightarrow> 'a) \<Rightarrow> 'a"
where
  "checkCanceled args onContinue callback =
     (if \<not> cancelExp_test (trim (utterance args)) then onContinue ()
      else callback
        \<lparr>resumed = ResumeReason_canceled, result_promptType = args_promptType args,
         response = None, error = None, handled = None\<rparr>)"

text \<open>
  The result that \<^verbatim>\<open>recognize\<close> hands to its callback first, with the calls made on the
  way.
\<close>

definition recognize :: "Env \<Rightarrow> IPromptRecognizerArgs \<Rightarrow> event list \<times> IPromptRecognizerResult" where
  "recognize env args =
     checkCanceled args
       (\<lambda>_. let txt = trim (utterance args) in
          case recognize_value env args txt of
            (evs, Inl err) \<Rightarrow> (evs, error_result args err)
          | (evs, Inr (score, resp)) \<Rightarrow>
              (evs @ [CompareConfidence (language args) txt score],
               case compareConfidence env (language args) txt score of
                 Inl err \<Rightarrow> error_result args err
               | Inr h \<Rightarrow>
                   if \<not> h \<and> score_positive score
                   then \<lparr>resumed = ResumeReason_completed,
                         result_promptType = args_promptType args,
                         response = resp, error = None, handled = None\<rparr>
                   else \<lparr>resumed = ResumeReason_notCompleted,
                         result_promptType = args_promptType args,
                         response = None, error = None, handled = Some h\<rparr>))
       (\<lambda>result. ([], result))"

text \<open>
  \<^verbatim>\<open>recognize\<close> with its callback.  The callback works on a state and may raise; the state
  it leaves and the exception are its result.  In the \<^verbatim>\<open>try\<close> block the callback is called
  from the callback of the arbitration; what the block raises, the callback's own exception
  included, is caught, and the \<^verbatim>\<open>catch\<close> clause calls the callback with the error result.
  The call for a cancellation and the call in the \<^verbatim>\<open>catch\<close> clause are outside the block:
  what they raise leaves \<^verbatim>\<open>recognize\<close>.
\<close>

definition recognize_with ::
  "Env \<Rightarrow> IPromptRecognizerArgs \<Rightarrow> (IPromptRecognizerResult \<Rightarrow> 'st \<Rightarrow> 'st \<times> thrown option)
     \<Rightarrow> 'st \<Rightarrow> event list \<times> 'st \<times> thrown option"
where
  "recognize_with env args callback st =
     checkCanceled args
       (\<lambda>_. let txt = trim (utterance args);
                (evs, tried) =
                  (case recognize_value env args txt of
                     (evs, Inl err) \<Rightarrow> (evs, st, Some err)
                   | (evs, Inr (score, resp)) \<Rightarrow>
                       (evs @ [CompareConfidence (language args) txt score],
                        case compareConfidence env (language args) txt score of
                          Inl err \<Rightarrow> (st, Some err)
                        | Inr h \<Rightarrow>
                            if \<not> h \<and> score_positive score
                            then callback
                                   \<lparr>resumed = ResumeReason_completed,
                                    result_promptType = args_promptType args,
                                    response = resp, error = None, handled = None\<rparr> st
                            else callback
                                   \<lparr>resumed = ResumeReason_notCompleted,
                                    result_promptType = args_promptType args,
                                    response = None, error = None, handled = Some h\<rparr> st))
            in case tried of
                 (st', None) \<Rightarrow> (evs, st', None)
               | (st', Some err) \<Rightarrow> (evs, callback (error_result args err) st'))
       (\<lambda>result. ([], callback result st))"


section \<open>Prompts\<close>

text \<open>The base prompt after \<^verbatim>\<open>Array.isArray\<close> and \<^verbatim>\<open>randomPrompt\<close>.\<close>

datatype resolved = RString string | RMessage IMessage | RUndefined

definition pick :: "Env \<Rightarrow> prompt option \<Rightarrow> resolved" where
  "pick env p =
     (case p of
        None \<Rightarrow> RUndefined
      | Some (PString s) \<Rightarrow> RString s
      | Some (PArray xs) \<Rightarrow> RString (randomPrompt env xs)
      | Some (PMessage m) \<Rightarrow> RMessage m)"

text \<open>\<^verbatim>\<open>if (args.retryPrompt)\<close>: the empty string is falsy, as is a missing key.\<close>

definition truthy_prompt :: "prompt option \<Rightarrow> bool" where
  "truthy_prompt p = (case p of None \<Rightarrow> False | Some (PString s) \<Rightarrow> s \<noteq> [] | Some _ \<Rightarrow> True)"

text \<open>The two \<^verbatim>\<open>forEach\<close> loops, with the list built so far and the connector.\<close>

fun inline_loop :: "nat \<Rightarrow> string list \<Rightarrow> nat \<Rightarrow> string \<times> string \<Rightarrow> string \<times> string" where
  "inline_loop len [] i st = st"
| "inline_loop len (v # vs) i (lst, connector) =
     inline_loop len vs (i + 1)
       (lst @ connector @ digits (i + 1) @ ''. '' @ v,
        if int i = int len - 2 then (if i = 0 then '' or '' else '', or '') else '', '')"

fun list_loop :: "string list \<Rightarrow> nat \<Rightarrow> string \<times> string \<Rightarrow> string \<times> string" where
  "list_loop [] i st = st"
| "list_loop (v # vs) i (lst, connector) =
     list_loop vs (i + 1) (lst @ connector @ digits (i + 1) @ ''. '' @ v, CHR 0x0A # ''   '')"

definition inline_list :: "string list \<Rightarrow> string" where
  "inline_list vs = fst (inline_loop (length vs) vs 0 ('' '', []))"

definition list_list :: "string list \<Rightarrow> string" where
  "list_list vs = fst (list_loop vs 0 (CHR 0x0A # ''   '', []))"

definition button_actions :: "string list \<Rightarrow> IAction list" where
  "button_actions vs = map (\<lambda>a. \<lparr>title = a, message = a\<rparr>) vs"

definition effective_style :: "Env \<Rightarrow> IPromptArgs \<Rightarrow> ListStyle option" where
  "effective_style env args =
     (if listStyle args = Some ListStyle_auto
      then (let maxBtns = maxButtons env in
            if 0 < maxBtns \<and> int (length (enumValues args)) \<le> maxBtns then Some ListStyle_button
            else if length (enumValues args) < 4 then Some ListStyle_inline
            else Some ListStyle_list)
      else listStyle args)"

text \<open>The base prompt of \<^verbatim>\<open>formatPrompt\<close>, before the prompt options are added.\<close>

definition base_prompt :: "Env \<Rightarrow> IPromptArgs \<Rightarrow> bool \<Rightarrow> resolved" where
  "base_prompt env args retry =
     (let p = pick env (prompt args)
      in if retry
         then (if truthy_prompt (retryPrompt args) then pick env (retryPrompt args)
               else (case p of
                       RString s \<Rightarrow> RString (defaultRetryPrompt env @ '' '' @ s)
                     | _ \<Rightarrow> p))
         else p)"

definition Prompts_formatPrompt :: "Env \<Rightarrow> Session \<Rightarrow> IPromptArgs \<Rightarrow> bool \<Rightarrow> IMessage option" where
  "Prompts_formatPrompt env session args retry =
     (case base_prompt env args retry of
        RString s \<Rightarrow>
          Some
            (if promptType args = Some PromptType_choice
             then (case effective_style env args of
                     Some ListStyle_button \<Rightarrow>
                       addAttachment (setText new_Message s [])
                         \<lparr>actions = button_actions (enumValues (dialogData session))\<rparr>
                   | Some ListStyle_inline \<Rightarrow>
                       setText new_Message (s @ ''%s'') [inline_list (enumValues args)]
                   | Some ListStyle_list \<Rightarrow>
                       setText new_Message (s @ ''%s'') [list_list (enumValues args)]
                   | _ \<Rightarrow> setText new_Message s [])
             else setText new_Message s [])
      | RMessage m \<Rightarrow> Some m
      | RUndefined \<Rightarrow> None)"

text \<open>
  The loop of \<^verbatim>\<open>begin\<close> over the own properties of \<^verbatim>\<open>args\<close>: every key that \<^verbatim>\<open>args\<close>
  carries is written to \<^verbatim>\<open>session.dialogData\<close>, a key it lacks keeps what was there.
  \<^verbatim>\<open>enumValues\<close>, which every bag of the model carries, is written always.
\<close>

definition copy_own :: "IPromptArgs \<Rightarrow> IPromptArgs \<Rightarrow> IPromptArgs" where
  "copy_own args dd =
     \<lparr>retryPrompt = (case retryPrompt args of None \<Rightarrow> retryPrompt dd | Some v \<Rightarrow> Some v),
      maxRetries = (case maxRetries args of None \<Rightarrow> maxRetries dd | Some v \<Rightarrow> Some v),
      refDate = (case refDate args of None \<Rightarrow> refDate dd | Some v \<Rightarrow> Some v),
      listStyle = (case listStyle args of None \<Rightarrow> listStyle dd | Some v \<Rightarrow> Some v),
      promptType = (case promptType args of None \<Rightarrow> promptType dd | Some v \<Rightarrow> Some v),
      prompt = (case prompt args of None \<Rightarrow> prompt dd | Some v \<Rightarrow> Some v),
      enumValues = enumValues args,
      others = fold (\<lambda>(key, v). AList.update key v) (others args) (others dd)\<rparr>"

text \<open>\<^verbatim>\<open>args.maxRetries || 1\<close>\<close>

definition or_1 :: "real option \<Rightarrow> real" where
  "or_1 m = (case m of None \<Rightarrow> 1 | Some n \<Rightarrow> if n = 0 then 1 else n)"

definition Prompts_begin :: "Env \<Rightarrow> Session \<Rightarrow> IPromptArgs \<Rightarrow> Session" where
  "Prompts_begin env session args0 =
     (let args = args0\<lparr>maxRetries := Some (or_1 (maxRetries args0))\<rparr>;
          session = session\<lparr>dialogData := copy_own args (dialogData session)\<rparr>;
          msg = Prompts_formatPrompt env session args False
      in case send env msg of
           None \<Rightarrow> session\<lparr>sent := sent session @ [msg]\<rparr>
         | Some err \<Rightarrow> session\<lparr>raised := Some err\<rparr>)"

text \<open>
  The callback that \<^verbatim>\<open>replyReceived\<close> passes to the recogniser: the session it leaves and
  the exception it raises, if any.  \<^verbatim>\<open>args\<close> is \<^verbatim>\<open>session.dialogData\<close> itself, so the
  decrement is a write to the persisted state, and it is made before the retry prompt is
  built and sent.
\<close>

definition replyReceived_callback ::
  "Env \<Rightarrow> IPromptRecognizerResult \<Rightarrow> Session \<Rightarrow> Session \<times> thrown option"
where
  "replyReceived_callback env result session =
     (let args = dialogData session in
      if handled result \<noteq> Some True then
        if error result \<noteq> None \<or> resumed result = ResumeReason_completed
           \<or> resumed result = ResumeReason_canceled \<or> maxRetries args = Some 0
        then (session\<lparr>ended := Some (result\<lparr>result_promptType := promptType args\<rparr>)\<rparr>, None)
        else (let args = args\<lparr>maxRetries := map_option (\<lambda>n. n - 1) (maxRetries args)\<rparr>;
                  session = session\<lparr>dialogData := args\<rparr>;
                  msg = Prompts_formatPrompt env session args True
              in case send env msg of
                   None \<Rightarrow> (session\<lparr>sent := sent session @ [msg]\<rparr>, None)
                 | Some err \<Rightarrow> (session, Some err))
      else (session, None))"

definition recognizer_args :: "Session \<Rightarrow> IPromptRecognizerArgs" where
  "recognizer_args session =
     \<lparr>args_promptType = promptType (dialogData session),
      language = message_language session,
      utterance = message_text session,
      args_enumValues = enumValues (dialogData session),
      args_refDate = refDate (dialogData session)\<rparr>"

text \<open>
  \<^verbatim>\<open>replyReceived\<close> runs the recogniser that \<^verbatim>\<open>Prompts.options\<close> holds by default,
  \<^verbatim>\<open>SimplePromptRecognizer\<close>, with its callback.  An exception that leaves the recogniser
  leaves \<^verbatim>\<open>replyReceived\<close>: the session records it.
\<close>

definition Prompts_replyReceived :: "Env \<Rightarrow> Session \<Rightarrow> Session" where
  "Prompts_replyReceived env session =
     (case recognize_with env (recognizer_args session) (replyReceived_callback env) session of
        (evs, session', None) \<Rightarrow> session'
      | (evs, session', Some err) \<Rightarrow> session'\<lparr>raised := Some err\<rparr>)"


section \<open>Notions used to state the properties\<close>

text \<open>The session with the next inbound message, as the hosting conversation presents it.\<close>

definition receive :: "Session \<Rightarrow> string \<Rightarrow> Session" where
  "receive session txt = session\<lparr>message_text := txt\<rparr>"

text \<open>The result that the recogniser hands to the dialog on a reply.\<close>

definition outcome :: "Env \<Rightarrow> Session \<Rightarrow> IPromptRecognizerResult" where
  "outcome env session = snd (recognize env (recognizer_args session))"

text \<open>One turn: the reply \<open>txt\<close> arrives and \<^verbatim>\<open>replyReceived\<close> runs.\<close>

definition turn :: "Env \<Rightarrow> Session \<Rightarrow> string \<Rightarrow> Session" where
  "turn env session txt = Prompts_replyReceived env (receive session txt)"

text \<open>
  A reply that is no cancellation, that the interpreter scores 0 without raising, and that
  the arbitration does not claim.
\<close>

definition unclaimed_zero_score :: "Env \<Rightarrow> Session \<Rightarrow> string \<Rightarrow> bool" where
  "unclaimed_zero_score env session txt =
     (\<not> cancelExp_test (trim txt)
      \<and> (case snd (recognize_value env (recognizer_args (receive session txt)) (trim txt)) of
            Inl err \<Rightarrow> False
          | Inr (sc, resp) \<Rightarrow> sc = Finite 0)
      \<and> compareConfidence env (message_language session) (trim txt) (Finite 0) = Inr False)"

text \<open>
  A turn whose outcome is \<open>notCompleted\<close> with no error and unclaimed, while retries remain.
\<close>

definition retry_turn :: "Session \<Rightarrow> IPromptRecognizerResult \<Rightarrow> bool" where
  "retry_turn session result =
     (handled result \<noteq> Some True \<and> error result = None
      \<and> resumed result = ResumeReason_notCompleted
      \<and> (case maxRetries (dialogData session) of None \<Rightarrow> False | Some n \<Rightarrow> 0 < n))"

text \<open>The prompt of the dialog rendered as a retry.\<close>

definition retry_message :: "Env \<Rightarrow> Session \<Rightarrow> IMessage option" where
  "retry_message env session = Prompts_formatPrompt env session (dialogData session) True"

text \<open>The calls to the arbitration function among the calls of a turn.\<close>

fun is_arbitration :: "event \<Rightarrow> bool" where
  "is_arbitration (CompareConfidence l u sc) = True"
| "is_arbitration _ = False"

definition arbitration_calls :: "event list \<Rightarrow> event list" where
  "arbitration_calls evs = filter is_arbitration evs"

text \<open>
  A text begins with a phrase, letter case ignored: its first characters are those of the
  phrase once both are put in lower case.
\<close>

definition to_lower :: "char \<Rightarrow> char" where
  "to_lower c =
     (let n = (of_char c :: nat) in if 65 \<le> n \<and> n \<le> 90 then char_of (n + 32) else c)"

definition begins_ignoring_case :: "string \<Rightarrow> string \<Rightarrow> bool" where
  "begins_ignoring_case phrase txt = prefix (map to_lower phrase) (map to_lower txt)"

definition cancellation_phrases :: "string set" where
  "cancellation_phrases =
     {''cancel'', ''nevermind'', ''never mind'', ''back'', ''stop'', ''forget it''}"

text \<open>Digit runs and the integer they denote.\<close>

definition is_digit :: "char \<Rightarrow> bool" where
  "is_digit c = (48 \<le> (of_char c :: nat) \<and> (of_char c :: nat) \<le> 57)"

definition dec_value :: "string \<Rightarrow> nat" where
  "dec_value ds = foldl (\<lambda>a c. 10 * a + (of_char c - 48)) 0 ds"

definition digit_run :: "string \<Rightarrow> bool" where
  "digit_run ds = (ds \<noteq> [] \<and> list_all is_digit ds)"

text \<open>The numbered items \<^verbatim>\<open>1. Red\<close>, \<^verbatim>\<open>2. Green\<close>, ... of a candidate list.\<close>

definition numbered :: "string list \<Rightarrow> string list" where
  "numbered vs = map (\<lambda>(i, v). digits (i + 1) @ ''. '' @ v) (enumerate 0 vs)"

text \<open>
  Items on one line, joined by commas, with \<^verbatim>\<open>or\<close> before the last one: \<^verbatim>\<open> or \<close> between
  two items, \<^verbatim>\<open>, or \<close> after more.
\<close>

fun comma_joined :: "string list \<Rightarrow> string" where
  "comma_joined [] = []"
| "comma_joined [a] = a"
| "comma_joined (a # b # cs) = a @ '', '' @ comma_joined (b # cs)"

definition inline_enumeration :: "string list \<Rightarrow> string" where
  "inline_enumeration items =
     (if length items < 2 then comma_joined items
      else if length items = 2 then hd items @ '' or '' @ last items
      else comma_joined (butlast items) @ '', or '' @ last items)"

text \<open>
  The same items from index \<open>i\<close> on, and their join as the inline loop produces it: the
  connector before the last item depends on the index of the item before it.
\<close>

definition numbered_from :: "nat \<Rightarrow> string list \<Rightarrow> string list" where
  "numbered_from i vs = map (\<lambda>(j, v). digits (j + 1) @ ''. '' @ v) (enumerate i vs)"

fun tail_join :: "nat \<Rightarrow> string list \<Rightarrow> string" where
  "tail_join i [] = []"
| "tail_join i [a] = a"
| "tail_join i (a # b # cs) =
     a @ (if cs = [] then (if i = 0 then '' or '' else '', or '') else '', '')
       @ tail_join (i + 1) (b # cs)"

text \<open>Items one per line: each follows a line break and an indentation of three spaces.\<close>

definition line_enumeration :: "string list \<Rightarrow> string" where
  "line_enumeration items = concat (map (\<lambda>it. CHR 0x0A # ''   '' @ it) items)"

text \<open>The property bag \<^verbatim>\<open>{}\<close> of a dialog that has just been pushed.\<close>

definition empty_dialogData :: IPromptArgs where
  "empty_dialogData =
     \<lparr>retryPrompt = None, maxRetries = None, refDate = None, listStyle = None,
      promptType = None, prompt = None, enumValues = [], others = []\<rparr>"


section \<open>Sample collaborators and sessions\<close>

text \<open>
  Modelled from the spec: the entity recogniser (\<^verbatim>\<open>EntityRecognizer.ts\<close>) is not part of the
  module.  The sample \<^verbatim>\<open>parseNumber\<close> reads an unsigned decimal numeral of at most 15
  digits, at most 5 of them after the point, as the number it denotes, and answers
  not-a-number otherwise; the sample \<^verbatim>\<open>parseBoolean\<close> knows the yes/no words of the spec;
  the other two recognise nothing.
\<close>

definition sample_parseNumber :: "string \<Rightarrow> thrown + number" where
  "sample_parseNumber t =
     Inr (let whole = takeWhile is_digit t; rest = dropWhile is_digit t in
          if whole = [] then NaN
          else (case rest of
                  [] \<Rightarrow> if length whole \<le> 15 then Finite (real (dec_value whole)) else NaN
                | c # fs \<Rightarrow>
                    if c = CHR ''.'' \<and> digit_run fs \<and> length fs \<le> 5
                       \<and> length whole + length fs \<le> 15
                    then Finite (real (dec_value whole) + real (dec_value fs) / 10 ^ length fs)
                    else NaN))"

definition sample_parseBoolean :: "string \<Rightarrow> thrown + bool option" where
  "sample_parseBoolean t =
     Inr (if map to_lower t \<in> set [''yes'', ''y'', ''true''] then Some True
          else if map to_lower t \<in> set [''no'', ''n'', ''false''] then Some False
          else None)"

text \<open>
  The sample \<^verbatim>\<open>toString\<close> renders the numbers that the sample parser reads as the language
  does: the integer part in decimal, then a point and the digits of the fraction, if there
  is one.  It is not meant for other numbers.
\<close>

fun fraction_digits :: "nat \<Rightarrow> real \<Rightarrow> string" where
  "fraction_digits 0 f = []"
| "fraction_digits (Suc k) f =
     (if f = 0 then []
      else char_of (48 + nat \<lfloor>f * 10\<rfloor>) # fraction_digits k (f * 10 - of_int \<lfloor>f * 10\<rfloor>))"

definition unsigned_toString :: "real \<Rightarrow> string" where
  "unsigned_toString r =
     (if r = of_int \<lfloor>r\<rfloor> then digits (nat \<lfloor>r\<rfloor>)
      else digits (nat \<lfloor>r\<rfloor>) @ ''.'' @ fraction_digits 5 (r - of_int \<lfloor>r\<rfloor>))"

fun sample_toString :: "number \<Rightarrow> string" where
  "sample_toString (Finite r) =
     (if r < 0 then CHR ''-'' # unsigned_toString (- r) else unsigned_toString r)"
| "sample_toString Infinity = ''Infinity''"
| "sample_toString MinusInfinity = ''-Infinity''"
| "sample_toString NaN = ''NaN''"

text \<open>
  The sample environment: the arbitration answers \<open>claimed\<close>, the channel supports
  \<open>capacity\<close> buttons, a list of variants gives its first one, and every message is built
  and sent without an exception.
\<close>

definition sample_env :: "bool \<Rightarrow> int \<Rightarrow> Env" where
  "sample_env claimed capacity =
     \<lparr>parseNumber = sample_parseNumber,
      toString = sample_toString,
      parseBoolean = sample_parseBoolean,
      recognizeTime = (\<lambda>t r. Inr None),
      findBestMatch = (\<lambda>vs t. Inr None),
      compareConfidence = (\<lambda>l u sc. Inr claimed),
      maxButtons = capacity,
      randomPrompt = (\<lambda>xs. case xs of [] \<Rightarrow> [] | x # _ \<Rightarrow> x),
      defaultRetryPrompt = ''I didn't understand.'',
      send = (\<lambda>msg. None)\<rparr>"

text \<open>The same collaborators with an arbitration that claims the utterance \<open>help\<close> only.\<close>

definition help_env :: Env where
  "help_env = (sample_env False 0)\<lparr>compareConfidence := (\<lambda>l u sc. Inr (u = ''help''))\<rparr>"

text \<open>The same collaborators with a number parser that throws a string.\<close>

definition throwing_env :: Env where
  "throwing_env = (sample_env False 0)\<lparr>parseNumber := (\<lambda>t. Inl (ThrowOther ''boom''))\<rparr>"

text \<open>
  The same collaborators with a \<^verbatim>\<open>setText\<close> that rejects, as a \<^verbatim>\<open>sprintf\<close> does, a format
  in which a percent sign is followed by a space or by nothing.
\<close>

fun lone_percent :: "string \<Rightarrow> bool" where
  "lone_percent [] = False"
| "lone_percent [c] = (c = CHR ''%'')"
| "lone_percent (c # d # cs) =
     (if c = CHR ''%''
      then (if d = CHR ''%'' then lone_percent cs else d = CHR '' '' \<or> lone_percent (d # cs))
      else lone_percent (d # cs))"

definition sprintf_env :: Env where
  "sprintf_env =
     (sample_env False 0)
       \<lparr>send := (\<lambda>msg. case msg of
                          None \<Rightarrow> None
                        | Some m \<Rightarrow>
                            if lone_percent (msg_text m)
                            then Some (ThrowError (Error ''[sprintf] unexpected placeholder''))
                            else None)\<rparr>"

definition sample_args :: "PromptType \<Rightarrow> real option \<Rightarrow> IPromptArgs" where
  "sample_args kind retries =
     \<lparr>retryPrompt = None, maxRetries = retries, refDate = None,
      listStyle = Some ListStyle_auto, promptType = Some kind,
      prompt = Some (PString ''Which one?''),
      enumValues = [''Red'', ''Green'', ''Blue''], others = []\<rparr>"

definition sample_session :: "IPromptArgs \<Rightarrow> string \<Rightarrow> Session" where
  "sample_session dd txt =
     \<lparr>dialogData = dd, message_text = txt, message_language = ''en'', sent = [],
      ended = None, raised = None\<rparr>"


section \<open>The recogniser, case by case\<close>

lemma recognize_canceled:
  "cancelExp_test (trim (utterance args)) \<Longrightarrow>
   recognize env args =
     ([], \<lparr>resumed = ResumeReason_canceled, result_promptType = args_promptType args,
           response = None, error = None, handled = None\<rparr>)"
  by (simp add: recognize_def checkCanceled_def)

lemma recognize_raised:
  "\<not> cancelExp_test (trim (utterance args)) \<Longrightarrow>
   recognize_value env args (trim (utterance args)) = (evs, Inl err) \<Longrightarrow>
   recognize env args = (evs, error_result args err)"
  by (simp add: recognize_def checkCanceled_def)

lemma recognize_scored:
  "\<not> cancelExp_test (trim (utterance args)) \<Longrightarrow>
   recognize_value env args (trim (utterance args)) = (evs, Inr (sc, resp)) \<Longrightarrow>
   compareConfidence env (language args) (trim (utterance args)) sc = Inr h \<Longrightarrow>
   recognize env args =
     (evs @ [CompareConfidence (language args) (trim (utterance args)) sc],
      if \<not> h \<and> score_positive sc
      then \<lparr>resumed = ResumeReason_completed, result_promptType = args_promptType args,
            response = resp, error = None, handled = None\<rparr>
      else \<lparr>resumed = ResumeReason_notCompleted, result_promptType = args_promptType args,
            response = None, error = None, handled = Some h\<rparr>)"
  by (simp add: recognize_def checkCanceled_def)

lemma recognize_arbiter_raised:
  "\<not> cancelExp_test (trim (utterance args)) \<Longrightarrow>
   recognize_value env args (trim (utterance args)) = (evs, Inr (sc, resp)) \<Longrightarrow>
   compareConfidence env (language args) (trim (utterance args)) sc = Inl err \<Longrightarrow>
   recognize env args =
     (evs @ [CompareConfidence (language args) (trim (utterance args)) sc],
      error_result args err)"
  by (simp add: recognize_def checkCanceled_def)

lemma recognize_value_no_arbitration:
  "arbitration_calls (fst (recognize_value env args txt)) = []"
  by (simp add: recognize_value_def arbitration_calls_def Let_def
      split: option.splits PromptType.splits sum.splits)

lemma positive_score_has_response:
  "recognize_value env args txt = (evs, Inr (sc, resp)) \<Longrightarrow> score_positive sc \<Longrightarrow> resp \<noteq> None"
  by (auto simp add: recognize_value_def Let_def
      split: option.splits PromptType.splits sum.splits if_splits)

lemma outcome_canceled:
  "cancelExp_test (trim (message_text s)) \<Longrightarrow>
   outcome env s =
     \<lparr>resumed = ResumeReason_canceled, result_promptType = promptType (dialogData s),
      response = None, error = None, handled = None\<rparr>"
  by (simp add: outcome_def recognize_canceled recognizer_args_def)

lemma error_result_fields:
  "error (error_result args err) \<noteq> None"
  "handled (error_result args err) = None"
  "resumed (error_result args err) = ResumeReason_notCompleted"
  by (simp_all add: error_result_def)

text \<open>
  The recogniser with a callback, in terms of the first result: the callback receives it,
  and receives the error result after it when it raised on a result handed over inside
  the \<^verbatim>\<open>try\<close> block, which is a result that is neither the cancellation nor an error.
\<close>

lemma recognize_with_first:
  "recognize_with env args callback st =
     (case callback (snd (recognize env args)) st of
        (st', None) \<Rightarrow> (fst (recognize env args), st', None)
      | (st', Some err) \<Rightarrow>
          if resumed (snd (recognize env args)) = ResumeReason_canceled
             \<or> error (snd (recognize env args)) \<noteq> None
          then (fst (recognize env args), st', Some err)
          else (fst (recognize env args), callback (error_result args err) st'))"
proof (cases "cancelExp_test (trim (utterance args))")
  case True
  then show ?thesis
    by (simp add: recognize_with_def recognize_def checkCanceled_def split: prod.splits option.splits)
next
  case False
  obtain evs res where v: "recognize_value env args (trim (utterance args)) = (evs, res)"
    by (cases "recognize_value env args (trim (utterance args))")
  show ?thesis
  proof (cases res)
    case (Inl err)
    with False v show ?thesis
      by (simp add: recognize_with_def recognize_def checkCanceled_def error_result_fields
          split: prod.splits option.splits)
  next
    case (Inr p)
    obtain sc resp where p: "p = (sc, resp)" by (cases p)
    show ?thesis
    proof (cases "compareConfidence env (language args) (trim (utterance args)) sc")
      case (Inl err)
      with False v Inr p show ?thesis
        by (simp add: recognize_with_def recognize_def checkCanceled_def error_result_fields
            split: prod.splits option.splits)
    next
      case h: (Inr h)
      with False v Inr p show ?thesis
        by (simp add: recognize_with_def recognize_def checkCanceled_def
            split: prod.splits option.splits)
    qed
  qed
qed

lemma retry_message_decrement:
  "Prompts_formatPrompt env (s\<lparr>dialogData := (dialogData s)\<lparr>maxRetries := k\<rparr>\<rparr>)
     ((dialogData s)\<lparr>maxRetries := k\<rparr>) True = retry_message env s"
  by (simp add: retry_message_def Prompts_formatPrompt_def base_prompt_def effective_style_def
      cong: resolved.case_cong option.case_cong ListStyle.case_cong if_cong)

lemma callback_claimed:
  "handled r = Some True \<Longrightarrow> replyReceived_callback env r s = (s, None)"
  by (simp add: replyReceived_callback_def)

lemma callback_terminal:
  "handled r \<noteq> Some True \<Longrightarrow>
   error r \<noteq> None \<or> resumed r = ResumeReason_completed \<or> resumed r = ResumeReason_canceled
     \<or> maxRetries (dialogData s) = Some 0 \<Longrightarrow>
   replyReceived_callback env r s =
     (s\<lparr>ended := Some (r\<lparr>result_promptType := promptType (dialogData s)\<rparr>)\<rparr>, None)"
  by (auto simp add: replyReceived_callback_def)

lemma callback_retry:
  assumes "handled r \<noteq> Some True" and "error r = None"
    and "resumed r = ResumeReason_notCompleted" and "maxRetries (dialogData s) \<noteq> Some 0"
  shows "replyReceived_callback env r s =
     (case send env (retry_message env s) of
        None \<Rightarrow>
          (s\<lparr>dialogData :=
               (dialogData s)\<lparr>maxRetries := map_option (\<lambda>n. n - 1) (maxRetries (dialogData s))\<rparr>,
             sent := sent s @ [retry_message env s]\<rparr>, None)
      | Some err \<Rightarrow>
          (s\<lparr>dialogData :=
               (dialogData s)\<lparr>maxRetries := map_option (\<lambda>n. n - 1) (maxRetries (dialogData s))\<rparr>\<rparr>,
           Some err))"
  using assms
  by (simp add: replyReceived_callback_def Let_def retry_message_decrement split: option.splits)

lemma replyReceived_first:
  "snd (replyReceived_callback env (outcome env s) s) = None \<Longrightarrow>
   Prompts_replyReceived env s = fst (replyReceived_callback env (outcome env s) s)"
  by (cases "replyReceived_callback env (outcome env s) s")
     (simp add: Prompts_replyReceived_def recognize_with_first outcome_def)

lemma replyReceived_reentered:
  assumes "replyReceived_callback env (outcome env s) s = (s1, Some err)"
    and "resumed (outcome env s) \<noteq> ResumeReason_canceled" and "error (outcome env s) = None"
  shows "Prompts_replyReceived env s =
           s1\<lparr>ended := Some ((error_result (recognizer_args s) err)
                    \<lparr>result_promptType := promptType (dialogData s1)\<rparr>)\<rparr>"
proof -
  have "replyReceived_callback env (error_result (recognizer_args s) err) s1 =
     (s1\<lparr>ended := Some ((error_result (recognizer_args s) err)
              \<lparr>result_promptType := promptType (dialogData s1)\<rparr>)\<rparr>, None)"
    by (intro callback_terminal) (simp_all add: error_result_fields)
  then show ?thesis
    using assms by (simp add: Prompts_replyReceived_def recognize_with_first outcome_def)
qed

section \<open>Arbitration and the outcome of a turn\<close>

text \<open>
  Claim C2.  On a reply that is not a cancellation and whose interpretation does not raise,
  with score \<open>sc\<close> and value \<open>resp\<close>: if the arbitration answers claimed, the outcome has
  \<open>handled = true\<close> and \<open>resumed = notCompleted\<close>, and \<^verbatim>\<open>replyReceived\<close> leaves the session
  as it was (the dialog is not ended, nothing is sent, the persisted state is the same); if
  it answers unclaimed and the score is positive, the outcome is \<open>completed\<close> and carries
  the interpreted value; if it answers unclaimed and the score is not positive (0 in
  particular), the outcome is \<open>notCompleted\<close> and carries no value.
\<close>

theorem arbitration_decides_outcome:
  assumes not_canceled: "\<not> cancelExp_test (trim (message_text s))"
    and interpreted:
      "recognize_value env (recognizer_args s) (trim (message_text s)) = (evs, Inr (sc, resp))"
    and arbitrated:
      "compareConfidence env (message_language s) (trim (message_text s)) sc = Inr claimed"
  shows "(claimed \<longrightarrow>
            handled (outcome env s) = Some True
            \<and> resumed (outcome env s) = ResumeReason_notCompleted
            \<and> Prompts_replyReceived env s = s)
       \<and> (\<not> claimed \<and> score_positive sc \<longrightarrow>
            resumed (outcome env s) = ResumeReason_completed
            \<and> response (outcome env s) = resp \<and> resp \<noteq> None)
       \<and> (\<not> claimed \<and> \<not> score_positive sc \<longrightarrow>
            resumed (outcome env s) = ResumeReason_notCompleted
            \<and> response (outcome env s) = None)"
proof -
  let ?args = "recognizer_args s"
  have u: "utterance ?args = message_text s" and l: "language ?args = message_language s"
    by (simp_all add: recognizer_args_def)
  have r: "recognize env ?args =
     (evs @ [CompareConfidence (language ?args) (trim (utterance ?args)) sc],
      if \<not> claimed \<and> score_positive sc
      then \<lparr>resumed = ResumeReason_completed, result_promptType = args_promptType ?args,
            response = resp, error = None, handled = None\<rparr>
      else \<lparr>resumed = ResumeReason_notCompleted, result_promptType = args_promptType ?args,
            response = None, error = None, handled = Some claimed\<rparr>)"
    using not_canceled interpreted arbitrated by (intro recognize_scored) (simp_all add: u l)
  have resp: "score_positive sc \<Longrightarrow> resp \<noteq> None"
    using positive_score_has_response [OF interpreted] .
  have o: "outcome env s =
     (if \<not> claimed \<and> score_positive sc
      then \<lparr>resumed = ResumeReason_completed, result_promptType = args_promptType ?args,
            response = resp, error = None, handled = None\<rparr>
      else \<lparr>resumed = ResumeReason_notCompleted, result_promptType = args_promptType ?args,
            response = None, error = None, handled = Some claimed\<rparr>)"
    by (simp add: outcome_def r)
  have quiet: "Prompts_replyReceived env s = s" if claimed
  proof -
    have "replyReceived_callback env (outcome env s) s = (s, None)"
      using that by (intro callback_claimed) (simp add: o)
    then show ?thesis
      using replyReceived_first [of env s] by simp
  qed
  show ?thesis
    using resp quiet by (simp add: o)
qed

theorem arbitration_decides_outcome_witness:
  "Prompts_replyReceived (sample_env True 0)
      (sample_session (sample_args PromptType_number (Some 1)) ''42'')
     = sample_session (sample_args PromptType_number (Some 1)) ''42''
   \<and> response (outcome (sample_env False 0)
        (sample_session (sample_args PromptType_number (Some 1)) ''42''))
     = Some (NumberResponse (Finite 42))
   \<and> resumed (outcome (sample_env False 0)
        (sample_session (sample_args PromptType_number (Some 1)) ''many''))
     = ResumeReason_notCompleted"
proof -
  let ?s = "sample_session (sample_args PromptType_number (Some 1)) ''42''"
  let ?t = "sample_session (sample_args PromptType_number (Some 1)) ''many''"
  have c1: "\<not> cancelExp_test (trim (message_text ?s))" by code_simp
  have c2: "\<not> cancelExp_test (trim (message_text ?t))" by code_simp
  have i1: "recognize_value (sample_env True 0) (recognizer_args ?s) (trim (message_text ?s))
      = ([ParseNumber ''42''], Inr (Finite 1, Some (NumberResponse (Finite 42))))" by code_simp
  have i2: "recognize_value (sample_env False 0) (recognizer_args ?s) (trim (message_text ?s))
      = ([ParseNumber ''42''], Inr (Finite 1, Some (NumberResponse (Finite 42))))" by code_simp
  have i3: "recognize_value (sample_env False 0) (recognizer_args ?t) (trim (message_text ?t))
      = ([ParseNumber ''many''], Inr (Finite 0, None))" by code_simp
  have a1: "compareConfidence (sample_env True 0) (message_language ?s) (trim (message_text ?s))
      (Finite 1) = Inr True" by (simp add: sample_env_def)
  have a2: "compareConfidence (sample_env False 0) (message_language ?s) (trim (message_text ?s))
      (Finite 1) = Inr False" by (simp add: sample_env_def)
  have a3: "compareConfidence (sample_env False 0) (message_language ?t) (trim (message_text ?t))
      (Finite 0) = Inr False" by (simp add: sample_env_def)
  show ?thesis
    using arbitration_decides_outcome [OF c1 i1 a1] arbitration_decides_outcome [OF c1 i2 a2]
      arbitration_decides_outcome [OF c2 i3 a3]
    by simp
qed

section \<open>How often the arbitration is called\<close>

text \<open>
  Claim C3, as stated: on every reply that is not a cancellation the arbitration function is
  called exactly once, also when the interpreter raised.  With a number parser that throws,
  the reply \<open>five\<close> is no cancellation, the interpreter raises, and the arbitration is not
  called at all.
\<close>

theorem arbitration_skipped_on_exception:
  "\<not> cancelExp_test (trim ''five'')
   \<and> snd (recognize_value throwing_env
        (recognizer_args (sample_session (sample_args PromptType_number (Some 1)) ''five''))
        (trim ''five'')) = Inl (ThrowOther ''boom'')
   \<and> length (arbitration_calls (fst (recognize throwing_env
        (recognizer_args (sample_session (sample_args PromptType_number (Some 1)) ''five'')))))
       \<noteq> 1"
  by code_simp

text \<open>
  Claim C3, amended.  On a reply that is not a cancellation: if the interpreter returns a
  score (0 included), the arbitration function is called exactly once, with the language
  tag, the trimmed utterance and that score; if the interpreter raises, the arbitration
  function is not called and the outcome is the error result.
\<close>

theorem arbitration_called_once_unless_raised:
  assumes "\<not> cancelExp_test (trim (utterance args))"
  shows "case snd (recognize_value env args (trim (utterance args))) of
           Inr (sc, resp) \<Rightarrow>
             arbitration_calls (fst (recognize env args))
               = [CompareConfidence (language args) (trim (utterance args)) sc]
         | Inl err \<Rightarrow>
             arbitration_calls (fst (recognize env args)) = []
             \<and> snd (recognize env args) = error_result args err"
proof (cases "recognize_value env args (trim (utterance args))")
  case (Pair evs res)
  have no: "arbitration_calls evs = []"
    using recognize_value_no_arbitration [of env args "trim (utterance args)"] Pair by simp
  show ?thesis
  proof (cases res)
    case (Inl err)
    with Pair assms no show ?thesis
      by (simp add: recognize_raised)
  next
    case (Inr v)
    obtain sc resp where v: "v = (sc, resp)" by (cases v)
    have "fst (recognize env args)
            = evs @ [CompareConfidence (language args) (trim (utterance args)) sc]"
      using assms Pair Inr v
      by (cases "compareConfidence env (language args) (trim (utterance args)) sc")
         (simp_all add: recognize_arbiter_raised recognize_scored)
    with Pair Inr v no show ?thesis
      by (simp add: arbitration_calls_def)
  qed
qed

theorem arbitration_called_once_unless_raised_witness:
  "arbitration_calls (fst (recognize (sample_env False 0)
      (recognizer_args (sample_session (sample_args PromptType_number (Some 1)) ''many''))))
     = [CompareConfidence ''en'' ''many'' (Finite 0)]
   \<and> arbitration_calls (fst (recognize throwing_env
      (recognizer_args (sample_session (sample_args PromptType_number (Some 1)) ''five''))))
     = []"
proof -
  let ?a = "recognizer_args (sample_session (sample_args PromptType_number (Some 1)) ''many'')"
  let ?b = "recognizer_args (sample_session (sample_args PromptType_number (Some 1)) ''five'')"
  have c1: "\<not> cancelExp_test (trim (utterance ?a))" by code_simp
  have c2: "\<not> cancelExp_test (trim (utterance ?b))" by code_simp
  have v1: "snd (recognize_value (sample_env False 0) ?a (trim (utterance ?a)))
              = Inr (Finite 0, None)" by code_simp
  have v2: "snd (recognize_value throwing_env ?b (trim (utterance ?b)))
              = Inl (ThrowOther ''boom'')" by code_simp
  have l: "language ?a = ''en''" and u: "trim (utterance ?a) = ''many''" by code_simp+
  have r1: "arbitration_calls (fst (recognize (sample_env False 0) ?a))
              = [CompareConfidence (language ?a) (trim (utterance ?a)) (Finite 0)]"
    using arbitration_called_once_unless_raised [OF c1, of "sample_env False 0"]
    by (simp add: v1)
  have r2: "arbitration_calls (fst (recognize throwing_env ?b)) = []"
    using arbitration_called_once_unless_raised [OF c2, of throwing_env]
    by (simp add: v2)
  show ?thesis
    using r1 r2 by (simp add: l u)
qed

section \<open>An exception of the interpreter\<close>

text \<open>
  Claim C6.  When the interpreter raises on a reply, \<^verbatim>\<open>recognize\<close> returns normally with the
  outcome \<open>notCompleted\<close> that carries the error (the thrown \<^verbatim>\<open>Error\<close> itself, or an
  \<^verbatim>\<open>Error\<close> made of the thrown value's string), and \<^verbatim>\<open>replyReceived\<close> ends the dialog with
  that outcome: the persisted state, the retry counter in it, and the messages sent are as
  before.
\<close>

theorem interpreter_exception_ends_dialog:
  assumes "\<not> cancelExp_test (trim (message_text s))"
    and "recognize_value env (recognizer_args s) (trim (message_text s)) = (evs, Inl err)"
  shows "outcome env s =
           \<lparr>resumed = ResumeReason_notCompleted, result_promptType = promptType (dialogData s),
            response = None,
            error = Some (case err of ThrowError e \<Rightarrow> e | ThrowOther m \<Rightarrow> Error m),
            handled = None\<rparr>
         \<and> Prompts_replyReceived env s = s\<lparr>ended := Some (outcome env s)\<rparr>"
proof -
  have u: "utterance (recognizer_args s) = message_text s"
    by (simp add: recognizer_args_def)
  have "recognize env (recognizer_args s) = (evs, error_result (recognizer_args s) err)"
    using assms by (intro recognize_raised) (simp_all add: u)
  then have o: "outcome env s = error_result (recognizer_args s) err"
    by (simp add: outcome_def)
  have "replyReceived_callback env (outcome env s) s =
     (s\<lparr>ended := Some ((outcome env s)\<lparr>result_promptType := promptType (dialogData s)\<rparr>)\<rparr>,
      None)"
    by (intro callback_terminal) (simp_all add: o error_result_fields)
  then have "Prompts_replyReceived env s =
     s\<lparr>ended := Some ((outcome env s)\<lparr>result_promptType := promptType (dialogData s)\<rparr>)\<rparr>"
    using replyReceived_first [of env s] by simp
  then show ?thesis
    by (simp add: o error_result_def recognizer_args_def)
qed

theorem interpreter_exception_ends_dialog_witness:
  "Prompts_replyReceived throwing_env
     (sample_session (sample_args PromptType_number (Some 1)) ''five'')
   = (sample_session (sample_args PromptType_number (Some 1)) ''five'')
       \<lparr>ended := Some \<lparr>resumed = ResumeReason_notCompleted,
                        result_promptType = Some PromptType_number, response = None,
                        error = Some (Error ''boom''), handled = None\<rparr>\<rparr>"
proof -
  let ?s = "sample_session (sample_args PromptType_number (Some 1)) ''five''"
  have c: "\<not> cancelExp_test (trim (message_text ?s))" by code_simp
  have v: "recognize_value throwing_env (recognizer_args ?s) (trim (message_text ?s))
             = ([ParseNumber ''five''], Inl (ThrowOther ''boom''))" by code_simp
  have p: "promptType (dialogData ?s) = Some PromptType_number"
    by (simp add: sample_session_def sample_args_def)
  show ?thesis
    using interpreter_exception_ends_dialog [OF c v] by (simp add: p)
qed

section \<open>The ordinal fallback of a choice prompt\<close>

lemma choice_fallback_value:
  assumes "args_promptType args = Some PromptType_choice"
    and "findBestMatch env (args_enumValues args) txt = Inr None"
    and "parseNumber env txt = Inr n"
  shows "snd (recognize_value env args txt) =
           (if \<not> isNaN n \<and> score_positive n \<and> at_most_length n (args_enumValues args)
            then Inr (Finite 1,
                   Some (ChoiceResponse
                     \<lparr>index = n, match_entity = element_before (args_enumValues args) n,
                      match_score = Finite 1\<rparr>))
            else Inr (Finite 0, None))"
  using assms by (simp add: recognize_value_def)

text \<open>On the whole numbers the fallback is the one-based ordinal of a candidate.\<close>

lemma choice_fallback_ordinal:
  assumes "args_promptType args = Some PromptType_choice"
    and "findBestMatch env (args_enumValues args) txt = Inr None"
    and "parseNumber env txt = Inr (Finite (real k))"
  shows "snd (recognize_value env args txt) =
           (if 1 \<le> k \<and> k \<le> length (args_enumValues args)
            then Inr (Finite 1,
                   Some (ChoiceResponse
                     \<lparr>index = Finite (real k),
                      match_entity = Some (args_enumValues args ! (k - 1)),
                      match_score = Finite 1\<rparr>))
            else Inr (Finite 0, None))"
proof -
  have "real k - 1 = real_of_int (int k - 1)"
    by simp
  then have "\<lfloor>real k - 1\<rfloor> = int k - 1"
    by (simp only: floor_of_int)
  then have e: "element_before (args_enumValues args) (Finite (real k)) =
                  Some (args_enumValues args ! (k - 1))"
    if "1 \<le> k" "k \<le> length (args_enumValues args)"
    using that by (auto simp add: nat_diff_distrib)
  show ?thesis
    using e by (auto simp add: choice_fallback_value [OF assms])
qed

text \<open>
  Claim C8.  The claim holds that a number outside \<open>1 .. count\<close> leaves the score at 0 and
  that a number inside is recognised with the candidate of that position.  The source tests
  \<^verbatim>\<open>n > 0 && n <= args.enumValues.length\<close> and reads \<^verbatim>\<open>args.enumValues[n - 1]\<close> without
  asking whether \<open>n\<close> is whole.  With the three candidates and no fuzzy match, the
  utterance \<open>0.5\<close>, which is below 1, is recognised with score 1, and so is \<open>1.5\<close>; both
  complete the prompt with an index that is no position and with no candidate at all.
\<close>

theorem choice_fraction_accepted:
  "parseNumber (sample_env False 0) ''0.5'' = Inr (Finite (1 / 2))
   \<and> snd (recognize_value (sample_env False 0)
        (recognizer_args (sample_session (sample_args PromptType_choice (Some 1)) ''0.5''))
        ''0.5'')
     = Inr (Finite 1,
         Some (ChoiceResponse
           \<lparr>index = Finite (1 / 2), match_entity = None, match_score = Finite 1\<rparr>))
   \<and> outcome (sample_env False 0)
        (sample_session (sample_args PromptType_choice (Some 1)) ''1.5'')
     = \<lparr>resumed = ResumeReason_completed, result_promptType = Some PromptType_choice,
        response =
          Some (ChoiceResponse
            \<lparr>index = Finite (3 / 2), match_entity = None, match_score = Finite 1\<rparr>),
        error = None, handled = None\<rparr>"
  by code_simp

section \<open>Cancellation\<close>

lemma of_char_Canonicalize:
  "(of_char (Canonicalize c) :: nat) =
     (if 97 \<le> (of_char c :: nat) \<and> (of_char c :: nat) \<le> 122 then of_char c - 32 else of_char c)"
proof -
  have "((of_char c :: nat) - 32) mod 256 = of_char c - 32"
    using nat_of_char_less_256 [of c] by (intro mod_less) arith
  then show ?thesis
    by (simp add: Canonicalize_def Let_def)
qed

lemma of_char_to_lower:
  "(of_char (to_lower c) :: nat) =
     (if 65 \<le> (of_char c :: nat) \<and> (of_char c :: nat) \<le> 90 then of_char c + 32 else of_char c)"
proof -
  have "(of_char c :: nat) \<le> 90 \<Longrightarrow> ((of_char c :: nat) + 32) mod 256 = of_char c + 32"
    by (intro mod_less) arith
  then show ?thesis
    by (auto simp add: to_lower_def Let_def)
qed

lemma Canonicalize_eq_iff: "Canonicalize a = Canonicalize b \<longleftrightarrow> to_lower a = to_lower b"
proof -
  define n m :: nat where "n = of_char a" and "m = of_char b"
  have "Canonicalize a = Canonicalize b
        \<longleftrightarrow> (of_char (Canonicalize a) :: nat) = of_char (Canonicalize b)"
    by simp
  also have "\<dots> \<longleftrightarrow> (if 97 \<le> n \<and> n \<le> 122 then n - 32 else n)
                       = (if 97 \<le> m \<and> m \<le> 122 then m - 32 else m)"
    by (simp only: of_char_Canonicalize n_def m_def)
  also have "\<dots> \<longleftrightarrow> (if 65 \<le> n \<and> n \<le> 90 then n + 32 else n)
                       = (if 65 \<le> m \<and> m \<le> 90 then m + 32 else m)"
    by (auto split: if_splits)
  also have "\<dots> \<longleftrightarrow> (of_char (to_lower a) :: nat) = of_char (to_lower b)"
    by (simp only: of_char_to_lower n_def m_def)
  also have "\<dots> \<longleftrightarrow> to_lower a = to_lower b"
    by simp
  finally show ?thesis .
qed

lemma match_literal_iff: "match_literal p s \<longleftrightarrow> begins_ignoring_case p s"
  by (induction p s rule: match_literal.induct)
     (simp_all add: begins_ignoring_case_def Canonicalize_eq_iff)

lemma cancelExp_test_iff:
  "cancelExp_test s \<longleftrightarrow> (\<exists>p \<in> cancellation_phrases. begins_ignoring_case p s)"
  by (simp add: cancelExp_test_def cancelExp_def cancellation_phrases_def match_literal_iff)


text \<open>
  Claim C5.  For every prompt kind and every utterance whose trimmed text begins, letter case
  ignored, with one of the phrases \<open>cancel\<close>, \<open>nevermind\<close>, \<open>never mind\<close>, \<open>back\<close>,
  \<open>stop\<close>, \<open>forget it\<close>, the outcome is \<open>canceled\<close> without a value, and no collaborator
  is called: neither a parser nor the arbitration function.
\<close>

theorem cancellation_bypasses_recognition:
  assumes "phrase \<in> cancellation_phrases"
    and "begins_ignoring_case phrase (trim (utterance args))"
  shows "recognize env args =
           ([], \<lparr>resumed = ResumeReason_canceled, result_promptType = args_promptType args,
                 response = None, error = None, handled = None\<rparr>)"
proof -
  have "cancelExp_test (trim (utterance args))"
    using assms cancelExp_test_iff by blast
  then show ?thesis
    by (rule recognize_canceled)
qed

theorem cancellation_bypasses_recognition_witness:
  "recognize throwing_env
     (recognizer_args (sample_session (sample_args PromptType_number (Some 1)) ''  Never Mind, 5 ''))
   = ([], \<lparr>resumed = ResumeReason_canceled, result_promptType = Some PromptType_number,
           response = None, error = None, handled = None\<rparr>)"
proof -
  let ?a = "recognizer_args
    (sample_session (sample_args PromptType_number (Some 1)) ''  Never Mind, 5 '')"
  have p: "''never mind'' \<in> cancellation_phrases"
    by (simp add: cancellation_phrases_def)
  have b: "begins_ignoring_case ''never mind'' (trim (utterance ?a))"
    by code_simp
  have k: "args_promptType ?a = Some PromptType_number"
    by code_simp
  show ?thesis
    using cancellation_bypasses_recognition [OF p b, of throwing_env] by (simp add: k)
qed

section \<open>The score of a number prompt\<close>

lemma number_prompt_value:
  "args_promptType args = Some PromptType_number \<Longrightarrow>
   snd (recognize_value env args txt) =
     (case parseNumber env txt of
        Inl err \<Rightarrow> Inl err
      | Inr n \<Rightarrow>
          if \<not> isNaN n
          then Inr (js_div (length (toString env n)) (length txt), Some (NumberResponse n))
          else Inr (Finite 0, None))"
  by (simp add: recognize_value_def)

text \<open>
  Claim C7.  The claim holds that the score of a number prompt is the length of the parsed
  numeric token over the length of the trimmed utterance, \<open>L / T\<close> for a digit run of length
  \<open>L\<close>.  The source divides the length of \<^verbatim>\<open>n.toString()\<close>, the rendering of the parsed
  number, which is not the token.  The utterance \<open>007\<close> is a digit run of length 3, it is
  parsed as 7, whose rendering has length 1, and the score is \<open>1 / 3\<close>, not \<open>3 / 3\<close>.
\<close>

theorem number_score_leading_zeros:
  "digit_run ''007''
   \<and> parseNumber (sample_env False 0) ''007'' = Inr (Finite 7)
   \<and> toString (sample_env False 0) (Finite 7) = ''7''
   \<and> snd (recognize_value (sample_env False 0)
        (recognizer_args (sample_session (sample_args PromptType_number (Some 1)) ''007''))
        ''007'')
       = Inr (Finite (1 / 3), Some (NumberResponse (Finite 7)))
   \<and> Finite (1 / 3) \<noteq> Finite (real (length ''007'') / real (length ''007''))"
  by code_simp

section \<open>Rendering the candidates of a choice prompt\<close>

lemma numbered_from_0: "numbered vs = numbered_from 0 vs"
  by (simp add: numbered_def numbered_from_def)

lemma numbered_from_Cons:
  "numbered_from i (v # vs) = (digits (i + 1) @ ''. '' @ v) # numbered_from (Suc i) vs"
  by (simp add: numbered_from_def)

lemma numbered_from_Nil: "numbered_from i [] = []"
  by (simp add: numbered_from_def)

lemma numbered_from_eq_Nil: "numbered_from i vs = [] \<longleftrightarrow> vs = []"
  by (cases vs) (simp_all add: numbered_from_def)

lemma inline_loop_join:
  "len = i + length vs \<Longrightarrow> vs \<noteq> [] \<Longrightarrow>
   fst (inline_loop len vs i (lst, c)) = lst @ c @ tail_join i (numbered_from i vs)"
proof (induction vs arbitrary: i lst c)
  case Nil
  then show ?case by simp
next
  case (Cons v vs)
  show ?case
  proof (cases vs)
    case Nil
    then show ?thesis
      by (simp add: numbered_from_Cons numbered_from_Nil)
  next
    case (Cons b cs)
    let ?item = "digits (i + 1) @ ''. '' @ v"
    let ?conn = "if cs = [] then (if i = 0 then '' or '' else '', or '') else '', ''"
    have last: "(int i = int len - 2) = (cs = [])"
      using Cons.prems(1) Cons by auto
    have "len = Suc i + length vs" "vs \<noteq> []"
      using Cons.prems(1) Cons by simp_all
    note ih = Cons.IH [OF this]
    have "fst (inline_loop len (v # vs) i (lst, c))
            = fst (inline_loop len vs (Suc i) (lst @ c @ ?item, ?conn))"
      by (simp add: last)
    also have "\<dots> = (lst @ c @ ?item) @ ?conn @ tail_join (Suc i) (numbered_from (Suc i) vs)"
      by (rule ih)
    also have "\<dots> = lst @ c @ tail_join i (numbered_from i (v # vs))"
      by (simp add: Cons numbered_from_Cons numbered_from_eq_Nil)
    finally show ?thesis .
  qed
qed

lemma tail_join_later:
  "0 < i \<Longrightarrow> 2 \<le> length items \<Longrightarrow>
   tail_join i items = comma_joined (butlast items) @ '', or '' @ last items"
proof (induction i items rule: tail_join.induct)
  case (1 i)
  then show ?case by simp
next
  case (2 i a)
  then show ?case by simp
next
  case (3 i a b cs)
  show ?case
  proof (cases cs)
    case Nil
    with 3 show ?thesis by simp
  next
    case (Cons c ds)
    with 3 show ?thesis by simp
  qed
qed

lemma tail_join_inline_enumeration: "tail_join 0 items = inline_enumeration items"
proof (cases items)
  case Nil
  then show ?thesis by (simp add: inline_enumeration_def)
next
  case (Cons a as)
  note items = this
  show ?thesis
  proof (cases as)
    case Nil
    with items show ?thesis by (simp add: inline_enumeration_def)
  next
    case (Cons b bs)
    show ?thesis
    proof (cases bs)
      case Nil
      with items Cons show ?thesis by (simp add: inline_enumeration_def)
    next
      case (Cons c cs)
      have "tail_join 0 (a # b # c # cs) = a @ '', '' @ tail_join (Suc 0) (b # c # cs)"
        by simp
      also have "tail_join (Suc 0) (b # c # cs)
                   = comma_joined (butlast (b # c # cs)) @ '', or '' @ last (b # c # cs)"
        by (rule tail_join_later) simp_all
      finally show ?thesis
        using items \<open>as = b # bs\<close> Cons by (simp add: inline_enumeration_def)
    qed
  qed
qed

lemma inline_list_enumeration: "inline_list vs = '' '' @ inline_enumeration (numbered vs)"
proof (cases "vs = []")
  case True
  then show ?thesis
    by (simp add: inline_list_def inline_enumeration_def numbered_def)
next
  case False
  then show ?thesis
    using inline_loop_join [of "length vs" 0 vs "'' ''" "[]"]
    by (simp add: inline_list_def numbered_from_0 tail_join_inline_enumeration)
qed

lemma list_loop_lines:
  "fst (list_loop vs i (lst, c)) =
     (case vs of
        [] \<Rightarrow> lst
      | v # vs' \<Rightarrow>
          lst @ c @ (digits (i + 1) @ ''. '' @ v) @ line_enumeration (numbered_from (Suc i) vs'))"
proof (induction vs arbitrary: i lst c)
  case Nil
  then show ?case by simp
next
  case (Cons v vs)
  show ?case
  proof (cases vs)
    case Nil
    then show ?thesis
      by (simp add: line_enumeration_def numbered_from_Nil)
  next
    case (Cons b cs)
    have "fst (list_loop (v # vs) i (lst, c))
            = fst (list_loop vs (Suc i) (lst @ c @ digits (i + 1) @ ''. '' @ v, CHR 0x0A # ''   ''))"
      by simp
    also have "\<dots> = (lst @ c @ digits (i + 1) @ ''. '' @ v) @ (CHR 0x0A # ''   '')
                     @ (digits (Suc i + 1) @ ''. '' @ b)
                     @ line_enumeration (numbered_from (Suc (Suc i)) cs)"
      by (subst Cons.IH) (simp add: Cons)
    also have "\<dots> = lst @ c @ (digits (i + 1) @ ''. '' @ v)
                     @ line_enumeration (numbered_from (Suc i) vs)"
      by (simp add: Cons numbered_from_Cons line_enumeration_def)
    finally show ?thesis
      by simp
  qed
qed

lemma list_list_enumeration: "vs \<noteq> [] \<Longrightarrow> list_list vs = line_enumeration (numbered vs)"
proof (cases vs)
  case Nil
  assume "vs \<noteq> []"
  with Nil show ?thesis by simp
next
  case (Cons v vs')
  have "list_list vs = (CHR 0x0A # ''   '') @ [] @ (digits (0 + 1) @ ''. '' @ v)
                         @ line_enumeration (numbered_from (Suc 0) vs')"
    unfolding list_list_def list_loop_lines Cons by simp
  also have "\<dots> = line_enumeration (numbered vs)"
    by (simp add: Cons numbered_from_0 numbered_from_Cons line_enumeration_def)
  finally show ?thesis .
qed


lemma copy_own_enumValues: "enumValues (copy_own a dd) = enumValues a"
  by (simp add: copy_own_def)

lemma begin_sent:
  assumes "msg = Prompts_formatPrompt env
          (s\<lparr>dialogData := copy_own (a\<lparr>maxRetries := Some (or_1 (maxRetries a))\<rparr>) (dialogData s)\<rparr>)
          (a\<lparr>maxRetries := Some (or_1 (maxRetries a))\<rparr>) False"
    and "send env msg = None"
  shows "sent (Prompts_begin env s a) = sent s @ [msg]"
  using assms by (simp add: Prompts_begin_def Let_def)

text \<open>
  Claim C9.  For a choice prompt with list style \<open>auto\<close> whose base prompt is the plain text
  \<open>s\<close>, sent for a session whose persisted candidates are those of the arguments (as in
  both callers of \<^verbatim>\<open>formatPrompt\<close>), with channel capacity \<open>B\<close>: if \<open>0 < B\<close> and the
  number of candidates is at most \<open>B\<close>, the message is the text with one attachment
  holding one action per candidate, in order; otherwise, with fewer than 4 candidates, the
  text is followed by a space and the numbered candidates on one line, joined by commas
  with \<open> or \<close> (two items) or \<open>, or \<close> (more) before the last; otherwise the text is
  followed by the numbered candidates one per line.
\<close>

theorem auto_list_rendering:
  assumes "promptType args = Some PromptType_choice"
    and "listStyle args = Some ListStyle_auto"
    and "base_prompt env args retry = RString s"
    and "enumValues (dialogData session) = enumValues args"
  shows "Prompts_formatPrompt env session args retry =
           Some
             (if 0 < maxButtons env \<and> int (length (enumValues args)) \<le> maxButtons env
              then \<lparr>msg_text = s, msg_args = [],
                    attachments =
                      [\<lparr>actions = map (\<lambda>v. \<lparr>title = v, message = v\<rparr>) (enumValues args)\<rparr>]\<rparr>
              else if length (enumValues args) < 4
              then \<lparr>msg_text = s @ ''%s'',
                    msg_args = ['' '' @ inline_enumeration (numbered (enumValues args))],
                    attachments = []\<rparr>
              else \<lparr>msg_text = s @ ''%s'',
                    msg_args = [line_enumeration (numbered (enumValues args))],
                    attachments = []\<rparr>)"
proof -
  have long: "list_list (enumValues args) = line_enumeration (numbered (enumValues args))"
    if "\<not> length (enumValues args) < 4"
    using that by (intro list_list_enumeration) auto
  show ?thesis
    using assms long
    by (simp add: Prompts_formatPrompt_def effective_style_def Let_def setText_def
        addAttachment_def new_Message_def button_actions_def inline_list_enumeration)
qed

theorem auto_list_rendering_witness:
  "Prompts_formatPrompt (sample_env False 5)
      (sample_session (sample_args PromptType_choice (Some 1)) [])
      (sample_args PromptType_choice (Some 1)) False
     = Some \<lparr>msg_text = ''Which one?'', msg_args = [],
             attachments = [\<lparr>actions = [\<lparr>title = ''Red'', message = ''Red''\<rparr>,
                                        \<lparr>title = ''Green'', message = ''Green''\<rparr>,
                                        \<lparr>title = ''Blue'', message = ''Blue''\<rparr>]\<rparr>]\<rparr>
   \<and> Prompts_formatPrompt (sample_env False 0)
      (sample_session (sample_args PromptType_choice (Some 1)) [])
      (sample_args PromptType_choice (Some 1)) False
     = Some \<lparr>msg_text = ''Which one?%s'', msg_args = ['' 1. Red, 2. Green, or 3. Blue''],
             attachments = []\<rparr>
   \<and> Prompts_formatPrompt (sample_env False 0)
      (sample_session
        ((sample_args PromptType_choice (Some 1))\<lparr>enumValues := [''a'', ''b'', ''c'', ''d'', ''e'']\<rparr>) [])
      ((sample_args PromptType_choice (Some 1))\<lparr>enumValues := [''a'', ''b'', ''c'', ''d'', ''e'']\<rparr>)
      False
     = Some \<lparr>msg_text = ''Which one?%s'',
             msg_args = [[CHR 0x0A] @ ''   1. a'' @ [CHR 0x0A] @ ''   2. b'' @ [CHR 0x0A]
                          @ ''   3. c'' @ [CHR 0x0A] @ ''   4. d'' @ [CHR 0x0A] @ ''   5. e''],
             attachments = []\<rparr>"
proof -
  let ?a = "sample_args PromptType_choice (Some 1)"
  let ?b = "(sample_args PromptType_choice (Some 1))\<lparr>enumValues := [''a'', ''b'', ''c'', ''d'', ''e'']\<rparr>"
  have k: "promptType ?a = Some PromptType_choice" "promptType ?b = Some PromptType_choice"
    by (simp_all add: sample_args_def)
  have l: "listStyle ?a = Some ListStyle_auto" "listStyle ?b = Some ListStyle_auto"
    by (simp_all add: sample_args_def)
  have p: "base_prompt (sample_env False 5) ?a False = RString ''Which one?''"
    "base_prompt (sample_env False 0) ?a False = RString ''Which one?''"
    "base_prompt (sample_env False 0) ?b False = RString ''Which one?''"
    by code_simp+
  have e: "enumValues (dialogData (sample_session ?a [])) = enumValues ?a"
    "enumValues (dialogData (sample_session ?b [])) = enumValues ?b"
    by (simp_all add: sample_session_def)
  have v: "enumValues ?a = [''Red'', ''Green'', ''Blue'']"
    "enumValues ?b = [''a'', ''b'', ''c'', ''d'', ''e'']"
    by (simp_all add: sample_args_def)
  have m: "maxButtons (sample_env False 5) = 5" "maxButtons (sample_env False 0) = 0"
    by (simp_all add: sample_env_def)
  have i: "inline_enumeration (numbered [''Red'', ''Green'', ''Blue''])
             = ''1. Red, 2. Green, or 3. Blue''"
    by code_simp
  have n: "line_enumeration (numbered [''a'', ''b'', ''c'', ''d'', ''e''])
             = [CHR 0x0A] @ ''   1. a'' @ [CHR 0x0A] @ ''   2. b'' @ [CHR 0x0A]
                 @ ''   3. c'' @ [CHR 0x0A] @ ''   4. d'' @ [CHR 0x0A] @ ''   5. e''"
    by code_simp
  have r1: "Prompts_formatPrompt (sample_env False 5) (sample_session ?a []) ?a False
     = Some \<lparr>msg_text = ''Which one?'', msg_args = [],
             attachments = [\<lparr>actions = [\<lparr>title = ''Red'', message = ''Red''\<rparr>,
                                        \<lparr>title = ''Green'', message = ''Green''\<rparr>,
                                        \<lparr>title = ''Blue'', message = ''Blue''\<rparr>]\<rparr>]\<rparr>"
    using auto_list_rendering [OF k(1) l(1) p(1) e(1)] by (simp add: v m)
  have r2: "Prompts_formatPrompt (sample_env False 0) (sample_session ?a []) ?a False
     = Some \<lparr>msg_text = ''Which one?%s'', msg_args = ['' 1. Red, 2. Green, or 3. Blue''],
             attachments = []\<rparr>"
    using auto_list_rendering [OF k(1) l(1) p(2) e(1)] by (simp add: v m i)
  have r3: "Prompts_formatPrompt (sample_env False 0) (sample_session ?b []) ?b False
     = Some \<lparr>msg_text = ''Which one?%s'',
             msg_args = [[CHR 0x0A] @ ''   1. a'' @ [CHR 0x0A] @ ''   2. b'' @ [CHR 0x0A]
                          @ ''   3. c'' @ [CHR 0x0A] @ ''   4. d'' @ [CHR 0x0A] @ ''   5. e''],
             attachments = []\<rparr>"
    using auto_list_rendering [OF k(2) l(2) p(3) e(2)] by (simp add: v m n)
  show ?thesis
    using r1 r2 r3 by blast
qed

section \<open>The retry counter\<close>

lemma retry_turn_fields:
  assumes "retry_turn s r"
  shows "handled r \<noteq> Some True" and "error r = None"
    and "resumed r = ResumeReason_notCompleted" and "maxRetries (dialogData s) \<noteq> Some 0"
  using assms by (auto simp add: retry_turn_def split: option.splits)

lemma replyReceived_retry_sent:
  assumes "retry_turn s (outcome env s)" and "send env (retry_message env s) = None"
  shows "Prompts_replyReceived env s =
     s\<lparr>dialogData :=
          (dialogData s)\<lparr>maxRetries := map_option (\<lambda>n. n - 1) (maxRetries (dialogData s))\<rparr>,
       sent := sent s @ [retry_message env s]\<rparr>"
proof -
  have "replyReceived_callback env (outcome env s) s =
     (s\<lparr>dialogData :=
          (dialogData s)\<lparr>maxRetries := map_option (\<lambda>n. n - 1) (maxRetries (dialogData s))\<rparr>,
        sent := sent s @ [retry_message env s]\<rparr>, None)"
    using callback_retry [OF retry_turn_fields [OF assms(1)], of env] assms(2) by simp
  then show ?thesis
    using replyReceived_first [of env s] by simp
qed

lemma replyReceived_retry_raised:
  assumes "retry_turn s (outcome env s)" and "send env (retry_message env s) = Some err"
  shows "Prompts_replyReceived env s =
     s\<lparr>dialogData :=
          (dialogData s)\<lparr>maxRetries := map_option (\<lambda>n. n - 1) (maxRetries (dialogData s))\<rparr>,
       ended := Some ((error_result (recognizer_args s) err)
                  \<lparr>result_promptType := promptType (dialogData s)\<rparr>)\<rparr>"
proof -
  have "replyReceived_callback env (outcome env s) s =
     (s\<lparr>dialogData :=
          (dialogData s)\<lparr>maxRetries := map_option (\<lambda>n. n - 1) (maxRetries (dialogData s))\<rparr>\<rparr>,
      Some err)"
    using callback_retry [OF retry_turn_fields [OF assms(1)], of env] assms(2) by simp
  from replyReceived_reentered [OF this] retry_turn_fields [OF assms(1)]
  show ?thesis by simp
qed

lemma replyReceived_not_retry:
  assumes "maxRetries (dialogData s) = Some (real k)" and "\<not> retry_turn s (outcome env s)"
  shows "dialogData (Prompts_replyReceived env s) = dialogData s"
    and "sent (Prompts_replyReceived env s) = sent s"
proof -
  let ?r = "outcome env s"
  have "dialogData (Prompts_replyReceived env s) = dialogData s
        \<and> sent (Prompts_replyReceived env s) = sent s"
  proof (cases "handled ?r = Some True")
    case True
    then have "replyReceived_callback env ?r s = (s, None)"
      by (rule callback_claimed)
    then show ?thesis
      using replyReceived_first [of env s] by simp
  next
    case False
    have "error ?r \<noteq> None \<or> resumed ?r = ResumeReason_completed
          \<or> resumed ?r = ResumeReason_canceled \<or> maxRetries (dialogData s) = Some 0"
      using assms False by (cases "resumed ?r") (auto simp add: retry_turn_def)
    from callback_terminal [OF False this, of env]
    show ?thesis
      using replyReceived_first [of env s] by simp
  qed
  then show "dialogData (Prompts_replyReceived env s) = dialogData s"
    and "sent (Prompts_replyReceived env s) = sent s"
    by simp_all
qed

lemma replyReceived_terminal:
  assumes "handled (outcome env s) \<noteq> Some True"
    and "error (outcome env s) \<noteq> None \<or> resumed (outcome env s) = ResumeReason_completed
         \<or> resumed (outcome env s) = ResumeReason_canceled
         \<or> maxRetries (dialogData s) = Some 0"
  shows "Prompts_replyReceived env s =
           s\<lparr>ended := Some ((outcome env s)\<lparr>result_promptType := promptType (dialogData s)\<rparr>)\<rparr>"
  using callback_terminal [OF assms, of env] replyReceived_first [of env s] by simp

lemma receive_fields:
  "dialogData (receive s m) = dialogData s"
  "message_text (receive s m) = m"
  "message_language (receive s m) = message_language s"
  "sent (receive s m) = sent s"
  "ended (receive s m) = ended s"
  "raised (receive s m) = raised s"
  by (simp_all add: receive_def)

lemma retry_message_cong:
  "dialogData s' = (dialogData s)\<lparr>maxRetries := k\<rparr> \<Longrightarrow> retry_message env s' = retry_message env s"
  by (simp add: retry_message_def Prompts_formatPrompt_def base_prompt_def effective_style_def
      cong: resolved.case_cong option.case_cong ListStyle.case_cong if_cong)

lemma retry_message_receive: "retry_message env (receive s m) = retry_message env s"
  by (simp add: retry_message_def Prompts_formatPrompt_def receive_fields
      cong: resolved.case_cong option.case_cong ListStyle.case_cong if_cong)

lemma unclaimed_zero_score_outcome:
  assumes "unclaimed_zero_score env s m"
  shows "outcome env (receive s m) =
           \<lparr>resumed = ResumeReason_notCompleted, result_promptType = promptType (dialogData s),
            response = None, error = None, handled = Some False\<rparr>"
proof -
  let ?args = "recognizer_args (receive s m)"
  have u: "utterance ?args = m" "language ?args = message_language s"
    "args_promptType ?args = promptType (dialogData s)"
    by (simp_all add: recognizer_args_def receive_def)
  obtain evs res where v: "recognize_value env ?args (trim m) = (evs, res)"
    by (cases "recognize_value env ?args (trim m)")
  with assms obtain resp where res: "res = Inr (Finite 0, resp)"
    by (auto simp add: unclaimed_zero_score_def split: sum.splits)
  have "recognize env ?args =
     (evs @ [CompareConfidence (language ?args) (trim (utterance ?args)) (Finite 0)],
      if \<not> False \<and> score_positive (Finite 0)
      then \<lparr>resumed = ResumeReason_completed, result_promptType = args_promptType ?args,
            response = resp, error = None, handled = None\<rparr>
      else \<lparr>resumed = ResumeReason_notCompleted, result_promptType = args_promptType ?args,
            response = None, error = None, handled = Some False\<rparr>)"
    using assms v res by (intro recognize_scored) (simp_all add: u unclaimed_zero_score_def)
  then show ?thesis
    by (simp add: outcome_def u)
qed

lemma unclaimed_zero_score_cong:
  "dialogData s' = (dialogData s)\<lparr>maxRetries := k\<rparr> \<Longrightarrow> message_language s' = message_language s \<Longrightarrow>
   unclaimed_zero_score env s' m = unclaimed_zero_score env s m"
  by (simp add: unclaimed_zero_score_def recognizer_args_def receive_def)

lemma turn_retry:
  assumes "unclaimed_zero_score env s m" and "maxRetries (dialogData s) = Some n" and "0 < n"
    and "send env (retry_message env s) = None"
  shows "turn env s m =
           (receive s m)\<lparr>dialogData := (dialogData s)\<lparr>maxRetries := Some (n - 1)\<rparr>,
                         sent := sent s @ [retry_message env s]\<rparr>"
proof -
  have "retry_turn (receive s m) (outcome env (receive s m))"
    using assms by (simp add: unclaimed_zero_score_outcome retry_turn_def receive_fields)
  from replyReceived_retry_sent [OF this] assms(2,4)
  show ?thesis
    by (simp add: turn_def retry_message_receive receive_fields)
qed

lemma turn_exhausted:
  assumes "unclaimed_zero_score env s m" and "maxRetries (dialogData s) = Some 0"
  shows "turn env s m =
           (receive s m)\<lparr>ended := Some \<lparr>resumed = ResumeReason_notCompleted,
              result_promptType = promptType (dialogData s), response = None, error = None,
              handled = Some False\<rparr>\<rparr>"
proof -
  have "Prompts_replyReceived env (receive s m) =
     (receive s m)\<lparr>ended := Some ((outcome env (receive s m))
        \<lparr>result_promptType := promptType (dialogData (receive s m))\<rparr>)\<rparr>"
    using assms
    by (intro replyReceived_terminal) (simp_all add: unclaimed_zero_score_outcome receive_fields)
  then show ?thesis
    using assms by (simp add: turn_def unclaimed_zero_score_outcome receive_fields)
qed

text \<open>
  The counter of a dialog is a whole number: \<^verbatim>\<open>begin\<close> stores a positive one when
  \<open>maxRetries\<close> is absent or a whole number that is not negative, as the data model
  requires.
\<close>

lemma begin_counter_whole:
  assumes "maxRetries args = None \<or> maxRetries args = Some (real j)"
  shows "\<exists>k. 0 < k \<and> maxRetries (dialogData (Prompts_begin env s args)) = Some (real k)"
proof -
  have "or_1 (maxRetries args) = real (if maxRetries args = None \<or> j = 0 then 1 else j)"
    using assms by (auto simp add: or_1_def)
  moreover have "maxRetries (dialogData (Prompts_begin env s args)) = Some (or_1 (maxRetries args))"
    by (simp add: Prompts_begin_def Let_def copy_own_def split: option.splits)
  ultimately show ?thesis
    by (intro exI [of _ "if maxRetries args = None \<or> j = 0 then 1 else j"]) simp
qed

text \<open>
  Claim C1, as stated.  First, the dialog is said to be terminal the instant the counter is
  already 0: after \<^verbatim>\<open>begin\<close> with \<open>maxRetries = 1\<close> and one unrecognised reply the counter
  is 0; the next reply, \<open>help\<close>, is claimed by the arbitration, and the dialog is not ended.
  Second, every unclaimed \<open>notCompleted\<close> turn with retries remaining is said to resend the
  prompt: with \<open>maxRetries = 2\<close> and the retry prompt \<open>50% off?\<close>, which \<^verbatim>\<open>setText\<close> rejects,
  the first unrecognised reply is such a turn; the counter goes down to 1, the exception is
  caught by the recogniser, which calls the callback again with the error, and the dialog
  is ended with nothing sent after the first prompt.
\<close>

theorem claimed_or_unsendable_retry_turn:
  "maxRetries (dialogData
      (turn help_env
        (Prompts_begin help_env (sample_session empty_dialogData [])
          (sample_args PromptType_number (Some 1)))
        ''many'')) = Some 0
   \<and> ended
      (turn help_env
        (turn help_env
          (Prompts_begin help_env (sample_session empty_dialogData [])
            (sample_args PromptType_number (Some 1)))
          ''many'')
        ''help'') = None
   \<and> retry_turn
      (receive
        (Prompts_begin sprintf_env (sample_session empty_dialogData [])
          ((sample_args PromptType_choice (Some 2))\<lparr>retryPrompt := Some (PString ''50% off?'')\<rparr>))
        ''many'')
      (outcome sprintf_env
        (receive
          (Prompts_begin sprintf_env (sample_session empty_dialogData [])
            ((sample_args PromptType_choice (Some 2))\<lparr>retryPrompt := Some (PString ''50% off?'')\<rparr>))
          ''many''))
   \<and> maxRetries (dialogData
      (turn sprintf_env
        (Prompts_begin sprintf_env (sample_session empty_dialogData [])
          ((sample_args PromptType_choice (Some 2))\<lparr>retryPrompt := Some (PString ''50% off?'')\<rparr>))
        ''many'')) = Some 1
   \<and> sent
      (turn sprintf_env
        (Prompts_begin sprintf_env (sample_session empty_dialogData [])
          ((sample_args PromptType_choice (Some 2))\<lparr>retryPrompt := Some (PString ''50% off?'')\<rparr>))
        ''many'')
     = [Some \<lparr>msg_text = ''Which one?%s'', msg_args = ['' 1. Red, 2. Green, or 3. Blue''],
              attachments = []\<rparr>]
   \<and> ended
      (turn sprintf_env
        (Prompts_begin sprintf_env (sample_session empty_dialogData [])
          ((sample_args PromptType_choice (Some 2))\<lparr>retryPrompt := Some (PString ''50% off?'')\<rparr>))
        ''many'')
     = Some \<lparr>resumed = ResumeReason_notCompleted, result_promptType = Some PromptType_choice,
             response = None, error = Some (Error ''[sprintf] unexpected placeholder''),
             handled = None\<rparr>"
  by code_simp

text \<open>
  Claim C1, amended.  The counter \<open>k\<close> of a dialog is a whole number that is not negative.
  On every turn it stays or goes down by one.  It goes down exactly on the turns whose
  outcome is \<open>notCompleted\<close> with no error and unclaimed while retries remain: such a turn
  decrements it by one and, when building and sending the message raises no exception,
  sends the prompt rendered as a retry and does not end the dialog; every other turn leaves
  the persisted state and the messages as they were.  On an unclaimed turn the dialog ends
  with the outcome as soon as the outcome is \<open>completed\<close> or \<open>canceled\<close>, or carries an
  error, or the counter is already 0.  With the counter at 2 and three unclaimed replies of
  score 0 in a row, the retry prompt being sent without exception, the first two turns each
  send it and leave the counter at 1, then 0, and the third ends the dialog with
  \<open>notCompleted\<close> and sends nothing.
\<close>

theorem retry_counter_discipline:
  assumes "maxRetries (dialogData s) = Some (real k)"
  shows "(maxRetries (dialogData (Prompts_replyReceived env s)) = Some (real k)
          \<or> 0 < k \<and> maxRetries (dialogData (Prompts_replyReceived env s)) = Some (real (k - 1)))
   \<and> (retry_turn s (outcome env s) \<longrightarrow>
        0 < k
        \<and> maxRetries (dialogData (Prompts_replyReceived env s)) = Some (real (k - 1))
        \<and> (send env (retry_message env s) = None \<longrightarrow>
             sent (Prompts_replyReceived env s) = sent s @ [retry_message env s]
             \<and> ended (Prompts_replyReceived env s) = ended s))
   \<and> (\<not> retry_turn s (outcome env s) \<longrightarrow>
        dialogData (Prompts_replyReceived env s) = dialogData s
        \<and> sent (Prompts_replyReceived env s) = sent s)
   \<and> (handled (outcome env s) \<noteq> Some True
        \<and> (resumed (outcome env s) = ResumeReason_completed
            \<or> resumed (outcome env s) = ResumeReason_canceled
            \<or> error (outcome env s) \<noteq> None
            \<or> k = 0) \<longrightarrow>
        ended (Prompts_replyReceived env s)
          = Some ((outcome env s)\<lparr>result_promptType := promptType (dialogData s)\<rparr>))
   \<and> (k = 2
        \<and> unclaimed_zero_score env s m1 \<and> unclaimed_zero_score env s m2
        \<and> unclaimed_zero_score env s m3
        \<and> send env (retry_message env s) = None \<longrightarrow>
        maxRetries (dialogData (turn env s m1)) = Some 1
        \<and> sent (turn env s m1) = sent s @ [retry_message env s]
        \<and> ended (turn env s m1) = ended s
        \<and> maxRetries (dialogData (turn env (turn env s m1) m2)) = Some 0
        \<and> sent (turn env (turn env s m1) m2)
            = sent s @ [retry_message env s, retry_message env s]
        \<and> ended (turn env (turn env s m1) m2) = ended s
        \<and> ended (turn env (turn env (turn env s m1) m2) m3)
            = Some \<lparr>resumed = ResumeReason_notCompleted,
                    result_promptType = promptType (dialogData s), response = None,
                    error = None, handled = Some False\<rparr>
        \<and> sent (turn env (turn env (turn env s m1) m2) m3)
            = sent (turn env (turn env s m1) m2))"
proof -
  let ?s' = "Prompts_replyReceived env s"
  have pos: "0 < k" if "retry_turn s (outcome env s)"
    using that assms by (simp add: retry_turn_def)
  have dec: "maxRetries (dialogData ?s') = Some (real (k - 1))" if r: "retry_turn s (outcome env s)"
  proof (cases "send env (retry_message env s)")
    case None
    show ?thesis
      using pos [OF r] assms by (simp add: replyReceived_retry_sent [OF r None] of_nat_diff)
  next
    case (Some err)
    show ?thesis
      using pos [OF r] assms by (simp add: replyReceived_retry_raised [OF r Some] of_nat_diff)
  qed
  have same: "dialogData ?s' = dialogData s" "sent ?s' = sent s"
    if "\<not> retry_turn s (outcome env s)"
    using replyReceived_not_retry [OF assms that] by simp_all
  have monotone: "maxRetries (dialogData ?s') = Some (real k)
          \<or> 0 < k \<and> maxRetries (dialogData ?s') = Some (real (k - 1))"
    using pos dec same(1) assms by (cases "retry_turn s (outcome env s)") simp_all
  have resend: "sent ?s' = sent s @ [retry_message env s] \<and> ended ?s' = ended s"
    if "retry_turn s (outcome env s)" and "send env (retry_message env s) = None"
    by (simp add: replyReceived_retry_sent [OF that])
  have terminal: "ended ?s'
          = Some ((outcome env s)\<lparr>result_promptType := promptType (dialogData s)\<rparr>)"
    if "handled (outcome env s) \<noteq> Some True
        \<and> (resumed (outcome env s) = ResumeReason_completed
            \<or> resumed (outcome env s) = ResumeReason_canceled
            \<or> error (outcome env s) \<noteq> None
            \<or> k = 0)"
  proof -
    have "Prompts_replyReceived env s =
       s\<lparr>ended := Some ((outcome env s)\<lparr>result_promptType := promptType (dialogData s)\<rparr>)\<rparr>"
      using that assms by (intro replyReceived_terminal) auto
    then show ?thesis by simp
  qed
  have three: "maxRetries (dialogData (turn env s m1)) = Some 1
        \<and> sent (turn env s m1) = sent s @ [retry_message env s]
        \<and> ended (turn env s m1) = ended s
        \<and> maxRetries (dialogData (turn env (turn env s m1) m2)) = Some 0
        \<and> sent (turn env (turn env s m1) m2)
            = sent s @ [retry_message env s, retry_message env s]
        \<and> ended (turn env (turn env s m1) m2) = ended s
        \<and> ended (turn env (turn env (turn env s m1) m2) m3)
            = Some \<lparr>resumed = ResumeReason_notCompleted,
                    result_promptType = promptType (dialogData s), response = None,
                    error = None, handled = Some False\<rparr>
        \<and> sent (turn env (turn env (turn env s m1) m2) m3)
            = sent (turn env (turn env s m1) m2)"
    if a: "k = 2 \<and> unclaimed_zero_score env s m1 \<and> unclaimed_zero_score env s m2
        \<and> unclaimed_zero_score env s m3 \<and> send env (retry_message env s) = None"
  proof -
    let ?s1 = "turn env s m1"
    let ?s2 = "turn env ?s1 m2"
    have two: "maxRetries (dialogData s) = Some 2"
      using assms a by simp
    have t1: "?s1 = (receive s m1)\<lparr>dialogData := (dialogData s)\<lparr>maxRetries := Some 1\<rparr>,
                                   sent := sent s @ [retry_message env s]\<rparr>"
      using turn_retry [of env s m1 2] a two by simp
    have d1: "dialogData ?s1 = (dialogData s)\<lparr>maxRetries := Some 1\<rparr>"
      "message_language ?s1 = message_language s"
      by (simp_all add: t1 receive_fields)
    have u2: "unclaimed_zero_score env ?s1 m2"
      using a d1 by (simp add: unclaimed_zero_score_cong [where s' = ?s1 and s = s and k = "Some 1"])
    have r2: "send env (retry_message env ?s1) = None"
      using a d1 by (simp add: retry_message_cong [where s' = ?s1 and s = s and k = "Some 1"])
    have t2: "?s2 = (receive ?s1 m2)\<lparr>dialogData := (dialogData ?s1)\<lparr>maxRetries := Some 0\<rparr>,
                                    sent := sent ?s1 @ [retry_message env ?s1]\<rparr>"
      using turn_retry [OF u2 _ _ r2, of 1] d1 by simp
    have d2: "dialogData ?s2 = (dialogData s)\<lparr>maxRetries := Some 0\<rparr>"
      "message_language ?s2 = message_language s"
      by (simp_all add: t2 d1 receive_fields)
    have u3: "unclaimed_zero_score env ?s2 m3"
      using a d2 by (simp add: unclaimed_zero_score_cong [where s' = ?s2 and s = s and k = "Some 0"])
    have t3: "turn env ?s2 m3 =
           (receive ?s2 m3)\<lparr>ended := Some \<lparr>resumed = ResumeReason_notCompleted,
              result_promptType = promptType (dialogData ?s2), response = None, error = None,
              handled = Some False\<rparr>\<rparr>"
      using turn_exhausted [OF u3] d2 by simp
    have m1: "retry_message env ?s1 = retry_message env s"
      using d1 by (simp add: retry_message_cong [where s' = ?s1 and s = s and k = "Some 1"])
    have s1: "sent ?s1 = sent s @ [retry_message env s]" "ended ?s1 = ended s"
      unfolding t1 by (simp_all add: receive_fields)
    have s2: "sent ?s2 = sent s @ [retry_message env s, retry_message env s]"
      "ended ?s2 = ended s"
      unfolding t2 by (simp_all add: receive_fields s1 m1)
    have s3: "ended (turn env ?s2 m3)
            = Some \<lparr>resumed = ResumeReason_notCompleted,
                    result_promptType = promptType (dialogData s), response = None,
                    error = None, handled = Some False\<rparr>"
      "sent (turn env ?s2 m3) = sent ?s2"
      unfolding t3 by (simp_all add: d2 receive_fields)
    show ?thesis
      using d1 d2 s1 s2 s3 by simp
  qed
  show ?thesis
    using monotone pos dec resend same terminal three by blast
qed

theorem retry_counter_discipline_witness:
  "maxRetries (dialogData (Prompts_replyReceived (sample_env False 0)
      (sample_session (sample_args PromptType_number (Some 1)) ''many''))) = Some 0
   \<and> sent (Prompts_replyReceived (sample_env False 0)
      (sample_session (sample_args PromptType_number (Some 1)) ''many''))
     = [Some \<lparr>msg_text = ''I didn't understand. Which one?'', msg_args = [],
              attachments = []\<rparr>]
   \<and> dialogData (Prompts_replyReceived (sample_env False 0)
      (sample_session (sample_args PromptType_number (Some 1)) ''42''))
     = sample_args PromptType_number (Some 1)
   \<and> ended (Prompts_replyReceived (sample_env False 0)
      (sample_session (sample_args PromptType_number (Some 1)) ''42''))
     = Some \<lparr>resumed = ResumeReason_completed, result_promptType = Some PromptType_number,
             response = Some (NumberResponse (Finite 42)), error = None, handled = None\<rparr>
   \<and> maxRetries (dialogData
        (turn (sample_env False 0)
          (turn (sample_env False 0)
            (sample_session (sample_args PromptType_number (Some 2)) []) ''a'') ''b'')) = Some 0
   \<and> ended
        (turn (sample_env False 0)
          (turn (sample_env False 0)
            (turn (sample_env False 0)
              (sample_session (sample_args PromptType_number (Some 2)) []) ''a'') ''b'') ''c'')
     = Some \<lparr>resumed = ResumeReason_notCompleted, result_promptType = Some PromptType_number,
             response = None, error = None, handled = Some False\<rparr>"
proof -
  let ?E = "sample_env False 0"
  let ?s = "sample_session (sample_args PromptType_number (Some 1)) ''many''"
  let ?t = "sample_session (sample_args PromptType_number (Some 1)) ''42''"
  let ?u = "sample_session (sample_args PromptType_number (Some 2)) []"
  have k1: "maxRetries (dialogData ?s) = Some (real 1)" "maxRetries (dialogData ?t) = Some (real 1)"
    and k2: "maxRetries (dialogData ?u) = Some (real 2)"
    by (simp_all add: sample_session_def sample_args_def)
  have h1: "retry_turn ?s (outcome ?E ?s)"
    by code_simp
  have g1: "send ?E (retry_message ?E ?s) = None" "send ?E (retry_message ?E ?u) = None"
    by (simp_all add: sample_env_def)
  have m1: "retry_message ?E ?s
     = Some \<lparr>msg_text = ''I didn't understand. Which one?'', msg_args = [], attachments = []\<rparr>"
    by code_simp
  have h2: "\<not> retry_turn ?t (outcome ?E ?t)"
    by code_simp
  have h3: "handled (outcome ?E ?t) \<noteq> Some True
        \<and> (resumed (outcome ?E ?t) = ResumeReason_completed
            \<or> resumed (outcome ?E ?t) = ResumeReason_canceled
            \<or> error (outcome ?E ?t) \<noteq> None
            \<or> (1::nat) = 0)"
    by code_simp
  have h4: "(2::nat) = 2
        \<and> unclaimed_zero_score ?E ?u ''a'' \<and> unclaimed_zero_score ?E ?u ''b''
        \<and> unclaimed_zero_score ?E ?u ''c''
        \<and> send ?E (retry_message ?E ?u) = None"
    using g1(2) by code_simp
  have o: "outcome ?E ?t =
      \<lparr>resumed = ResumeReason_completed, result_promptType = Some PromptType_number,
       response = Some (NumberResponse (Finite 42)), error = None, handled = None\<rparr>"
    by code_simp
  have d: "sent ?s = []" "dialogData ?t = sample_args PromptType_number (Some 1)"
    "promptType (dialogData ?t) = Some PromptType_number"
    "promptType (dialogData ?u) = Some PromptType_number"
    by (simp_all add: sample_session_def sample_args_def)
  have r1: "maxRetries (dialogData (Prompts_replyReceived ?E ?s)) = Some 0
    \<and> sent (Prompts_replyReceived ?E ?s)
     = [Some \<lparr>msg_text = ''I didn't understand. Which one?'', msg_args = [],
              attachments = []\<rparr>]"
    using retry_counter_discipline [OF k1(1), where env = ?E] h1 g1(1) by (simp add: m1 d(1))
  have r2: "dialogData (Prompts_replyReceived ?E ?t) = sample_args PromptType_number (Some 1)"
    using retry_counter_discipline [OF k1(2), where env = ?E] h2 d(2) by simp
  have r3: "ended (Prompts_replyReceived ?E ?t)
     = Some \<lparr>resumed = ResumeReason_completed, result_promptType = Some PromptType_number,
             response = Some (NumberResponse (Finite 42)), error = None, handled = None\<rparr>"
    using retry_counter_discipline [OF k1(2), where env = ?E] h3 by (simp add: o d(3))
  have r4: "maxRetries (dialogData (turn ?E (turn ?E ?u ''a'') ''b'')) = Some 0
    \<and> ended (turn ?E (turn ?E (turn ?E ?u ''a'') ''b'') ''c'')
     = Some \<lparr>resumed = ResumeReason_notCompleted, result_promptType = Some PromptType_number,
             response = None, error = None, handled = Some False\<rparr>"
    using retry_counter_discipline [OF k2, where env = ?E and ?m1.0 = "''a''" and ?m2.0 = "''b''"
        and ?m3.0 = "''c''"] h4 by (simp add: d(4))
  show ?thesis
    using r1 r2 r3 r4 by blast
qed

section \<open>What \<^verbatim>\<open>begin\<close> persists\<close>

text \<open>
  Claim C4.  The claim holds that an explicit \<open>maxRetries = 0\<close> survives the normalisation
  of \<^verbatim>\<open>begin\<close>, so that the first unrecognised, unclaimed reply ends the dialog.  In the
  source the default is applied by \<^verbatim>\<open>args.maxRetries || 1\<close>, for which 0 is as good as
  absent: the counter is stored as 1, and the first unrecognised reply is answered by a
  retry message (the second message sent) and does not end the dialog.
\<close>

theorem explicit_zero_maxRetries_becomes_one:
  "maxRetries (dialogData
      (Prompts_begin (sample_env False 0) (sample_session empty_dialogData [])
        (sample_args PromptType_number (Some 0)))) = Some 1
   \<and> ended
      (turn (sample_env False 0)
        (Prompts_begin (sample_env False 0) (sample_session empty_dialogData [])
          (sample_args PromptType_number (Some 0)))
        ''many'') = None
   \<and> sent
      (turn (sample_env False 0)
        (Prompts_begin (sample_env False 0) (sample_session empty_dialogData [])
          (sample_args PromptType_number (Some 0)))
        ''many'')
     = [Some \<lparr>msg_text = ''Which one?'', msg_args = [], attachments = []\<rparr>,
        Some \<lparr>msg_text = ''I didn't understand. Which one?'', msg_args = [],
              attachments = []\<rparr>]"
  by code_simp

lemma update_new_key: "key \<notin> fst ` set al \<Longrightarrow> AList.update key v al = al @ [(key, v)]"
  by (induction al) auto

lemma fold_update_other:
  "key \<notin> fst ` set xs \<Longrightarrow>
   map_of (fold (\<lambda>(k, v). AList.update k v) xs acc) key = map_of acc key"
  by (induction xs arbitrary: acc) (auto simp add: update_conv')

lemma fold_update_stores:
  "distinct (map fst xs) \<Longrightarrow> (key, v) \<in> set xs \<Longrightarrow>
   map_of (fold (\<lambda>(k, v). AList.update k v) xs acc) key = Some v"
proof (induction xs arbitrary: acc)
  case Nil
  then show ?case by simp
next
  case (Cons x xs)
  show ?case
  proof (cases "x = (key, v)")
    case True
    then have "key \<notin> fst ` set xs"
      using Cons.prems(1) by auto
    then show ?thesis
      using True by (simp add: fold_update_other update_conv')
  next
    case False
    then show ?thesis
      using Cons by (cases x) auto
  qed
qed

lemma fold_update_fresh:
  "distinct (map fst xs) \<Longrightarrow> fst ` set xs \<inter> fst ` set acc = {} \<Longrightarrow>
   fold (\<lambda>(k, v). AList.update k v) xs acc = acc @ xs"
proof (induction xs arbitrary: acc)
  case Nil
  then show ?case by simp
next
  case (Cons x xs)
  obtain k v where x: "x = (k, v)" by (cases x)
  have new: "k \<notin> fst ` set acc"
    using Cons.prems(2) x by auto
  have "fst ` set xs \<inter> fst ` set (acc @ [(k, v)]) = {}"
    using Cons.prems x by auto
  with Cons.IH [of "acc @ [(k, v)]"] Cons.prems(1)
  have "fold (\<lambda>(k, v). AList.update k v) xs (acc @ [(k, v)]) = (acc @ [(k, v)]) @ xs"
    by simp
  then show ?case
    by (simp add: x update_new_key [OF new])
qed

lemma copy_own_empty:
  "distinct (map fst (others a)) \<Longrightarrow> copy_own a empty_dialogData = a"
  by (simp add: copy_own_def empty_dialogData_def fold_update_fresh split: option.splits)

text \<open>
  Claim C10.  \<^verbatim>\<open>begin\<close> writes every own property of the argument bag, after the
  normalisation of \<open>maxRetries\<close>, to the persisted state of the dialog: each key of the
  interfaces that the bag carries, and each other key with its value, whatever they are;
  nothing is rejected.  On the empty state of a new dialog the persisted state is exactly
  the normalised bag.
\<close>

theorem begin_persists_whole_bag:
  assumes "distinct (map fst (others args))"
  shows "(\<forall>(key, v) \<in> set (others args).
            map_of (others (dialogData (Prompts_begin env s args))) key = Some v)
       \<and> maxRetries (dialogData (Prompts_begin env s args)) = Some (or_1 (maxRetries args))
       \<and> enumValues (dialogData (Prompts_begin env s args)) = enumValues args
       \<and> (retryPrompt args \<noteq> None \<longrightarrow>
            retryPrompt (dialogData (Prompts_begin env s args)) = retryPrompt args)
       \<and> (refDate args \<noteq> None \<longrightarrow>
            refDate (dialogData (Prompts_begin env s args)) = refDate args)
       \<and> (listStyle args \<noteq> None \<longrightarrow>
            listStyle (dialogData (Prompts_begin env s args)) = listStyle args)
       \<and> (promptType args \<noteq> None \<longrightarrow>
            promptType (dialogData (Prompts_begin env s args)) = promptType args)
       \<and> (prompt args \<noteq> None \<longrightarrow>
            prompt (dialogData (Prompts_begin env s args)) = prompt args)
       \<and> (dialogData s = empty_dialogData \<longrightarrow>
            dialogData (Prompts_begin env s args)
              = args\<lparr>maxRetries := Some (or_1 (maxRetries args))\<rparr>)"
proof -
  let ?a = "args\<lparr>maxRetries := Some (or_1 (maxRetries args))\<rparr>"
  have d: "dialogData (Prompts_begin env s args) = copy_own ?a (dialogData s)"
    by (simp add: Prompts_begin_def Let_def split: option.splits)
  have o: "\<forall>(key, v) \<in> set (others args).
            map_of (others (copy_own ?a (dialogData s))) key = Some v"
    using assms by (auto simp add: copy_own_def fold_update_stores)
  have e: "copy_own ?a empty_dialogData = ?a"
    using assms by (intro copy_own_empty) simp
  show ?thesis
    unfolding d using o e by (auto simp add: copy_own_def)
qed

theorem begin_persists_whole_bag_witness:
  "map_of (others (dialogData
      (Prompts_begin (sample_env False 0) (sample_session empty_dialogData [])
        ((sample_args PromptType_number None)
           \<lparr>retryPrompt := Some (PString ''Again?''), refDate := Some 1000,
            others := [(''colour'', JStr ''red''), (''timeout'', JNum 5)]\<rparr>)))) ''timeout''
     = Some (JNum 5)
   \<and> dialogData
      (Prompts_begin (sample_env False 0) (sample_session empty_dialogData [])
        ((sample_args PromptType_number None)
           \<lparr>retryPrompt := Some (PString ''Again?''), refDate := Some 1000,
            others := [(''colour'', JStr ''red''), (''timeout'', JNum 5)]\<rparr>))
     = (sample_args PromptType_number (Some 1))
           \<lparr>retryPrompt := Some (PString ''Again?''), refDate := Some 1000,
            others := [(''colour'', JStr ''red''), (''timeout'', JNum 5)]\<rparr>"
proof -
  let ?a = "(sample_args PromptType_number None)
           \<lparr>retryPrompt := Some (PString ''Again?''), refDate := Some 1000,
            others := [(''colour'', JStr ''red''), (''timeout'', JNum 5)]\<rparr>"
  let ?s = "sample_session empty_dialogData []"
  have h: "distinct (map fst (others ?a))"
    by simp
  have m: "(''timeout'', JNum 5) \<in> set (others ?a)"
    by simp
  have f: "dialogData ?s = empty_dialogData"
    by (simp add: sample_session_def)
  have n: "?a\<lparr>maxRetries := Some (or_1 (maxRetries ?a))\<rparr>
             = (sample_args PromptType_number (Some 1))
                 \<lparr>retryPrompt := Some (PString ''Again?''), refDate := Some 1000,
                  others := [(''colour'', JStr ''red''), (''timeout'', JNum 5)]\<rparr>"
    by (simp add: sample_args_def or_1_def)
  have k: "retryPrompt ?a \<noteq> None" "refDate ?a \<noteq> None" "listStyle ?a \<noteq> None"
    "promptType ?a \<noteq> None" "prompt ?a \<noteq> None"
    by (simp_all add: sample_args_def)
  show ?thesis
    using begin_persists_whole_bag [OF h, of "sample_env False 0" ?s] m f n k by auto
qed

end
